theory Spec2Isabelle
  imports Main
begin

section \<open>Data model\<close>

text \<open>
  The documents of the three collections, as the TypeScript types and the code that reads
  them have it. Object identifiers are strings (they are compared, passed as route
  parameters and tested for truthiness as strings).
  A stored message is a message with its \<open>_id\<close>; a stored chat holds the identifiers of its
  messages, and a chat as the services return it (after \<open>populate('messages')\<close>) holds the
  message documents. A chat's \<open>_id\<close> is optional in the type \<open>Chat\<close>, hence the option.
\<close>

record user =
  user_id :: string
  username :: string

text \<open>
  The date of a message is the value the request body carries for it, or the \<open>Date\<close> the
  server makes: a value of a JSON body is \<open>null\<close>, a boolean, a number, a string or an
  object (or array), and a \<open>Date\<close> is a number of milliseconds. The type \<open>Date\<close> of the
  field is erased at run time, so the code meets any of these. \<open>truthy\<close> is what \<open>||\<close>
  and \<open>!\<close> test: \<open>null\<close>, \<open>false\<close>, \<open>0\<close> and the empty string are falsy, every other value
  is truthy. The document keeps the value that is handed to \<open>create\<close>; the cast that
  the schema applies to it belongs to the database library.
\<close>

datatype js_value = JNull | JBool bool | JNum int | JStr string | JObject | JDate nat

fun truthy :: "js_value \<Rightarrow> bool" where
  "truthy JNull = False"
| "truthy (JBool b) = b"
| "truthy (JNum n) = (n \<noteq> 0)"
| "truthy (JStr s) = (s \<noteq> [])"
| "truthy JObject = True"
| "truthy (JDate t) = True"

record message =
  msg :: string
  msgFrom :: string
  msgDateTime :: js_value
  msgType :: string

record database_message = message +
  msg_id :: string

record chat =
  chat_id :: "string option"
  participants :: "string list"
  messages :: "database_message list"

record chat_doc =
  doc_id :: string
  doc_participants :: "string list"
  doc_messages :: "string list"

text \<open>The payload of the \<open>chatUpdate\<close> socket event.\<close>

record chat_update =
  upd_chat :: chat
  upd_type :: string

text \<open>
  What a call of an asynchronous library function does: it throws (the string is the
  rendering of the thrown value, as a template literal prints it) or it returns.
\<close>

datatype 'a outcome = Throws string | Returns 'a

section \<open>The client hook \<open>useDirectMessage\<close>\<close>

record hook_state =
  showCreatePanel :: bool
  chatToCreate :: string
  selectedChat :: "chat option"
  chats :: "chat list"
  newMessage :: string

text \<open>
  \<open>handleChatUpdate\<close> is defined inside the effect, so the \<open>selectedChat\<close> it tests is the
  one the effect captured when it last ran, not the current state: it is the first
  argument. The two state updates of each branch are applied to the state (the update
  of \<open>chats\<close> is functional, on the current list); the \<open>throw\<close> of the last branch is the
  \<open>Inl\<close> result. On the client an \<open>_id\<close> is the string of the JSON document (or undefined),
  so \<open>===\<close> is equality of optional strings.
\<close>

definition handleChatUpdate ::
  "chat option \<Rightarrow> chat_update \<Rightarrow> hook_state \<Rightarrow> string + hook_state" where
  "handleChatUpdate capturedChat chatUpdate st =
     (let chat = upd_chat chatUpdate; type = upd_type chatUpdate in
      if type = ''created'' then
        Inr (st\<lparr>chats :=
               (let prevChats = chats st;
                    exists = list_ex (\<lambda>existingChat. chat_id existingChat = chat_id chat) prevChats
                in if exists then prevChats else prevChats @ [chat])\<rparr>)
      else if type = ''newMessage'' then
        (let st1 = (case capturedChat of
                      None \<Rightarrow> st
                    | Some sel \<Rightarrow>
                        if chat_id sel = chat_id chat then st\<lparr>selectedChat := Some chat\<rparr> else st)
         in Inr (st1\<lparr>chats :=
                   map (\<lambda>existingChat. if chat_id existingChat = chat_id chat then chat
                                         else existingChat) (chats st1)\<rparr>))
      else Inl (''Error: Invalid chatUpdate type: '' @ type))"

text \<open>
  The effect and its dependency \<open>selectedChat?._id\<close>. The mounted hook is its state
  together with the \<open>selectedChat\<close> that the registered \<open>chatUpdate\<close> listener closes over.
  Mounting runs the effect, which captures the selection of the first render. A render
  with a new state runs the effect again, and so captures the new selection, exactly
  when \<open>selectedChat?._id\<close> differs from that of the render before (the user and the
  socket, the other dependencies, staying the same). A \<open>chatUpdate\<close> event runs the
  registered listener on the current state and renders the state it sets.
\<close>

definition selectedChatId :: "chat option \<Rightarrow> string option" where
  "selectedChatId sel = (case sel of None \<Rightarrow> None | Some c \<Rightarrow> chat_id c)"

record mounted_hook =
  hook :: hook_state
  captured :: "chat option"

definition mount :: "hook_state \<Rightarrow> mounted_hook" where
  "mount st = \<lparr>hook = st, captured = selectedChat st\<rparr>"

definition render :: "hook_state \<Rightarrow> mounted_hook \<Rightarrow> mounted_hook" where
  "render st m =
     \<lparr>hook = st,
      captured = (if selectedChatId (selectedChat st) = selectedChatId (selectedChat (hook m))
                  then captured m else selectedChat st)\<rparr>"

definition on_chatUpdate :: "chat_update \<Rightarrow> mounted_hook \<Rightarrow> string + mounted_hook" where
  "on_chatUpdate chatUpdate m =
     (case handleChatUpdate (captured m) chatUpdate (hook m) of
        Inl error \<Rightarrow> Inl error
      | Inr st \<Rightarrow> Inr (render st m))"

text \<open>
  \<open>String.prototype.trim\<close> on strings of 8-bit characters: the white space and line
  terminators below code 256 are tab, line feed, vertical tab, form feed, carriage
  return, space and the no-break space.
\<close>

definition isWhiteSpace :: "char \<Rightarrow> bool" where
  "isWhiteSpace c = (of_char c \<in> {9, 10, 11, 12, 13, 32, 160 :: nat})"

definition trim :: "string \<Rightarrow> string" where
  "trim s = rev (dropWhile isWhiteSpace (rev (dropWhile isWhiteSpace s)))"

text \<open>The message object that \<open>handleSendMessage\<close> hands to the \<open>sendMessage\<close> service.\<close>

record send_payload =
  send_msg :: string
  send_msgFrom :: string
  send_msgDateTime :: nat

text \<open>
  \<open>handleSendMessage\<close>. The service \<open>sendMessage\<close> belongs to the client's chat service,
  which performs an HTTP request: it is a parameter, and may throw. The result is the new
  state and the list of the calls of \<open>sendMessage\<close> that were made. \<open>now\<close> is what
  \<open>new Date()\<close> reads. The guard \<open>!selectedChat?._id\<close> holds for no selection, for an
  undefined \<open>_id\<close> and for the empty string.
\<close>

definition handleSendMessage ::
  "(send_payload \<Rightarrow> string \<Rightarrow> chat outcome) \<Rightarrow> user \<Rightarrow> nat \<Rightarrow> hook_state
     \<Rightarrow> hook_state \<times> (send_payload \<times> string) list" where
  "handleSendMessage sendMessage usr now st =
     (if trim (newMessage st) = [] then (st, [])
      else case selectedChat st of
        None \<Rightarrow> (st, [])
      | Some sel \<Rightarrow>
         (case chat_id sel of
            None \<Rightarrow> (st, [])
          | Some cid \<Rightarrow>
             if cid = [] then (st, [])
             else
               (let payload = \<lparr>send_msg = newMessage st, send_msgFrom = username usr,
                                send_msgDateTime = now\<rparr>
                in case sendMessage payload cid of
                     Returns updatedChat \<Rightarrow>
                       (st\<lparr>selectedChat := Some updatedChat, newMessage := []\<rparr>,
                        [(payload, cid)])
                   | Throws error \<Rightarrow> (st, [(payload, cid)]))))"

section \<open>The database\<close>

text \<open>
  The three collections, the counter from which fresh object identifiers are drawn, and
  a schedule of faults: every call of the database library consumes the head of the
  schedule; the call then runs normally, throws (a lost connection, a validation or cast
  error), or resolves to \<open>null\<close> without doing anything. An empty schedule is a database
  without faults.
\<close>

datatype fault = NoFault | DbThrows string | DbNull

record db =
  UserModel :: "user list"
  MessageModel :: "database_message list"
  ChatModel :: "chat_doc list"
  nextId :: nat
  faults :: "fault list"

definition db_call :: "(db \<Rightarrow> 'a option \<times> db) \<Rightarrow> db \<Rightarrow> 'a option outcome \<times> db" where
  "db_call f d =
     (case faults d of
        [] \<Rightarrow> (case f d of (r, d') \<Rightarrow> (Returns r, d'))
      | NoFault # fs \<Rightarrow> (case f (d\<lparr>faults := fs\<rparr>) of (r, d') \<Rightarrow> (Returns r, d'))
      | DbThrows e # fs \<Rightarrow> (Throws e, d\<lparr>faults := fs\<rparr>)
      | DbNull # fs \<Rightarrow> (Returns None, d\<lparr>faults := fs\<rparr>))"

text \<open>A fresh object identifier: never empty, one for each value of the counter.\<close>

fun digits :: "nat \<Rightarrow> string" where
  "digits n = (if n < 10 then [char_of (48 + n)] else digits (n div 10) @ [char_of (48 + n mod 10)])"

definition newObjectId :: "nat \<Rightarrow> string" where
  "newObjectId n = ''oid'' @ digits n"

text \<open>
  \<open>populate('messages')\<close>: every message identifier of the chat is replaced by the message
  document it names; an identifier that names no document is dropped.
\<close>

definition populate :: "db \<Rightarrow> chat_doc \<Rightarrow> chat" where
  "populate d c =
     \<lparr>chat_id = Some (doc_id c), participants = doc_participants c,
      messages = List.map_filter (\<lambda>i. find (\<lambda>m. msg_id m = i) (MessageModel d)) (doc_messages c)\<rparr>"

text \<open>\<open>UserModel.findOne({ username })\<close>, \<open>UserModel.findById\<close> and
  \<open>UserModel.find({ username: { $in: p } })\<close>.\<close>

definition UserModel_findOne :: "string \<Rightarrow> db \<Rightarrow> user option outcome \<times> db" where
  "UserModel_findOne name = db_call (\<lambda>d. (find (\<lambda>u. username u = name) (UserModel d), d))"

definition UserModel_findById :: "string \<Rightarrow> db \<Rightarrow> user option outcome \<times> db" where
  "UserModel_findById i = db_call (\<lambda>d. (find (\<lambda>u. user_id u = i) (UserModel d), d))"

definition UserModel_find_in :: "string list \<Rightarrow> db \<Rightarrow> user list option outcome \<times> db" where
  "UserModel_find_in p = db_call (\<lambda>d. (Some (filter (\<lambda>u. username u \<in> set p) (UserModel d)), d))"

text \<open>\<open>MessageModel.create\<close> and \<open>ChatModel.create\<close>: the document gets a fresh identifier
  and is appended to its collection.\<close>

definition MessageModel_create :: "message \<Rightarrow> db \<Rightarrow> database_message option outcome \<times> db" where
  "MessageModel_create messageData =
     db_call (\<lambda>d.
       (let doc = \<lparr>msg = msg messageData, msgFrom = msgFrom messageData,
                   msgDateTime = msgDateTime messageData, msgType = msgType messageData,
                   msg_id = newObjectId (nextId d)\<rparr>
        in (Some doc, d\<lparr>MessageModel := MessageModel d @ [doc], nextId := Suc (nextId d)\<rparr>)))"

definition ChatModel_create :: "string list \<Rightarrow> string list \<Rightarrow> db \<Rightarrow> chat_doc option outcome \<times> db" where
  "ChatModel_create ps ms =
     db_call (\<lambda>d.
       (let doc = \<lparr>doc_id = newObjectId (nextId d), doc_participants = ps, doc_messages = ms\<rparr>
        in (Some doc, d\<lparr>ChatModel := ChatModel d @ [doc], nextId := Suc (nextId d)\<rparr>)))"

text \<open>\<open>ChatModel.findById(id).populate('messages')\<close>.\<close>

definition ChatModel_findById :: "string \<Rightarrow> db \<Rightarrow> chat option outcome \<times> db" where
  "ChatModel_findById i =
     db_call (\<lambda>d. (map_option (populate d) (find (\<lambda>c. doc_id c = i) (ChatModel d)), d))"

text \<open>
  \<open>ChatModel.findByIdAndUpdate(id, update, { new: true }).populate('messages')\<close>: the first
  chat with the identifier is updated and returned as updated; \<open>null\<close> when there is none.
\<close>

fun update_first :: "('a \<Rightarrow> bool) \<Rightarrow> ('a \<Rightarrow> 'a) \<Rightarrow> 'a list \<Rightarrow> 'a list" where
  "update_first P f [] = []"
| "update_first P f (x # xs) = (if P x then f x # xs else x # update_first P f xs)"

definition ChatModel_findByIdAndUpdate ::
  "string \<Rightarrow> (chat_doc \<Rightarrow> chat_doc) \<Rightarrow> db \<Rightarrow> chat option outcome \<times> db" where
  "ChatModel_findByIdAndUpdate i upd =
     db_call (\<lambda>d.
       (case find (\<lambda>c. doc_id c = i) (ChatModel d) of
          None \<Rightarrow> (None, d)
        | Some c \<Rightarrow>
            (Some (populate d (upd c)),
             d\<lparr>ChatModel := update_first (\<lambda>c. doc_id c = i) upd (ChatModel d)\<rparr>)))"

text \<open>The update operators \<open>$push\<close> and \<open>$addToSet\<close>.\<close>

definition push_message :: "string \<Rightarrow> chat_doc \<Rightarrow> chat_doc" where
  "push_message messageId c = c\<lparr>doc_messages := doc_messages c @ [messageId]\<rparr>"

definition addToSet_participant :: "string \<Rightarrow> chat_doc \<Rightarrow> chat_doc" where
  "addToSet_participant userId c =
     (if userId \<in> set (doc_participants c) then c
      else c\<lparr>doc_participants := doc_participants c @ [userId]\<rparr>)"

text \<open>
  \<open>ChatModel.find({ participants: { $all: ids } }).populate('messages')\<close>: the chats whose
  participants contain every identifier of \<open>ids\<close>; \<open>$all\<close> of an empty array matches no
  document.
\<close>

definition ChatModel_find_all :: "string list \<Rightarrow> db \<Rightarrow> chat list option outcome \<times> db" where
  "ChatModel_find_all ids =
     db_call (\<lambda>d.
       (Some (map (populate d)
                (filter (\<lambda>c. ids \<noteq> [] \<and> list_all (\<lambda>i. i \<in> set (doc_participants c)) ids)
                   (ChatModel d))), d))"

section \<open>The chat service\<close>

text \<open>The payload of \<open>saveChat\<close>: a validated request body.\<close>

record create_chat_payload =
  payload_participants :: "string list"
  payload_messages :: "message list"

text \<open>The first loop of \<open>saveChat\<close>: a participant that is the username of a user is
  replaced by that user's identifier, any other participant is kept as it is.\<close>

fun resolveParticipants :: "string list \<Rightarrow> db \<Rightarrow> string list outcome \<times> db" where
  "resolveParticipants [] d = (Returns [], d)"
| "resolveParticipants (participant # rest) d =
     (case UserModel_findOne participant d of
        (Throws e, d1) \<Rightarrow> (Throws e, d1)
      | (Returns usr, d1) \<Rightarrow>
          (case resolveParticipants rest d1 of
             (Throws e, d2) \<Rightarrow> (Throws e, d2)
           | (Returns participantIds, d2) \<Rightarrow>
               (Returns ((case usr of Some u \<Rightarrow> user_id u | None \<Rightarrow> participant)
                         # participantIds), d2)))"

text \<open>The second loop of \<open>saveChat\<close>: messages created before a failure stay created.\<close>

fun createMessages :: "message list \<Rightarrow> db \<Rightarrow> string list outcome \<times> db" where
  "createMessages [] d = (Returns [], d)"
| "createMessages (messageData # rest) d =
     (case MessageModel_create messageData d of
        (Throws e, d1) \<Rightarrow> (Throws e, d1)
      | (Returns None, d1) \<Rightarrow> (Throws ''Error: Failed to create message'', d1)
      | (Returns (Some message), d1) \<Rightarrow>
          (case createMessages rest d1 of
             (Throws e, d2) \<Rightarrow> (Throws e, d2)
           | (Returns messageIds, d2) \<Rightarrow> (Returns (msg_id message # messageIds), d2)))"

text \<open>The body of the \<open>try\<close> block of \<open>saveChat\<close>, and \<open>saveChat\<close> with its \<open>catch\<close>.\<close>

definition saveChat_try :: "create_chat_payload \<Rightarrow> db \<Rightarrow> chat outcome \<times> db" where
  "saveChat_try chatPayload d =
     (case resolveParticipants (payload_participants chatPayload) d of
        (Throws e, d1) \<Rightarrow> (Throws e, d1)
      | (Returns participantIds, d1) \<Rightarrow>
     (case createMessages (payload_messages chatPayload) d1 of
        (Throws e, d2) \<Rightarrow> (Throws e, d2)
      | (Returns messageIds, d2) \<Rightarrow>
     (case ChatModel_create participantIds messageIds d2 of
        (Throws e, d3) \<Rightarrow> (Throws e, d3)
      | (Returns None, d3) \<Rightarrow> (Throws ''Error: Failed to create chat'', d3)
      | (Returns (Some result), d3) \<Rightarrow>
     (case ChatModel_findById (doc_id result) d3 of
        (Throws e, d4) \<Rightarrow> (Throws e, d4)
      | (Returns None, d4) \<Rightarrow> (Throws ''Error: Failed to populate created chat'', d4)
      | (Returns (Some populatedChat), d4) \<Rightarrow> (Returns populatedChat, d4)))))"

definition saveChat :: "create_chat_payload \<Rightarrow> db \<Rightarrow> (string + chat) \<times> db" where
  "saveChat chatPayload d =
     (case saveChat_try chatPayload d of
        (Returns populatedChat, d') \<Rightarrow> (Inr populatedChat, d')
      | (Throws error, d') \<Rightarrow> (Inl (''Error occurred when saving chat: '' @ error), d'))"

definition createMessage :: "message \<Rightarrow> db \<Rightarrow> (string + database_message) \<times> db" where
  "createMessage messageData d =
     (case MessageModel_create messageData d of
        (Returns (Some result), d') \<Rightarrow> (Inr result, d')
      | (Returns None, d') \<Rightarrow>
          (Inl (''Error occurred when creating message: '' @ ''Error: Failed to create message''), d')
      | (Throws error, d') \<Rightarrow> (Inl (''Error occurred when creating message: '' @ error), d'))"

definition addMessageToChat :: "string \<Rightarrow> string \<Rightarrow> db \<Rightarrow> (string + chat) \<times> db" where
  "addMessageToChat chatId messageId d =
     (case ChatModel_findByIdAndUpdate chatId (push_message messageId) d of
        (Returns (Some updatedChat), d') \<Rightarrow> (Inr updatedChat, d')
      | (Returns None, d') \<Rightarrow>
          (Inl (''Error occurred when adding message to chat: ''
                @ ''Error: Chat not found or failed to update''), d')
      | (Throws error, d') \<Rightarrow> (Inl (''Error occurred when adding message to chat: '' @ error), d'))"


text \<open>
  \<open>getChatsByParticipants\<close>: \<open>users.length\<close> of a \<open>null\<close> throws, which the \<open>catch\<close> turns
  into the empty array as it does every other error.
\<close>

definition getChatsByParticipants :: "string list \<Rightarrow> db \<Rightarrow> chat list \<times> db" where
  "getChatsByParticipants p d =
     (case UserModel_find_in p d of
        (Throws error, d1) \<Rightarrow> ([], d1)
      | (Returns None, d1) \<Rightarrow> ([], d1)
      | (Returns (Some users), d1) \<Rightarrow>
          if length users \<noteq> length p then ([], d1)
          else
            (let participantIds = map user_id users in
             case ChatModel_find_all participantIds d1 of
               (Throws error, d2) \<Rightarrow> ([], d2)
             | (Returns None, d2) \<Rightarrow> ([], d2)
             | (Returns (Some foundChats), d2) \<Rightarrow> (foundChats, d2)))"

definition addParticipantToChat :: "string \<Rightarrow> string \<Rightarrow> db \<Rightarrow> (string + chat) \<times> db" where
  "addParticipantToChat chatId userId d =
     (case UserModel_findById userId d of
        (Throws error, d1) \<Rightarrow>
          (Inl (''Error occurred when adding participant to chat: '' @ error), d1)
      | (Returns None, d1) \<Rightarrow>
          (Inl (''Error occurred when adding participant to chat: '' @ ''Error: User not found''), d1)
      | (Returns (Some usr), d1) \<Rightarrow>
          (case ChatModel_findByIdAndUpdate chatId (addToSet_participant userId) d1 of
             (Returns (Some updatedChat), d2) \<Rightarrow> (Inr updatedChat, d2)
           | (Returns None, d2) \<Rightarrow>
               (Inl (''Error occurred when adding participant to chat: ''
                     @ ''Error: Chat not found or failed to update''), d2)
           | (Throws error, d2) \<Rightarrow>
               (Inl (''Error occurred when adding participant to chat: '' @ error), d2)))"

section \<open>The chat controller\<close>

text \<open>
  Requests. A field of a JSON body is undefined, a value that is not an array, or an
  array; the elements of an array have the type the request type gives them. The body
  itself may be undefined, and so may the route parameter.
\<close>

datatype 'a field = Undefined | NotArray | Array "'a list"

record create_chat_body =
  req_participants :: "string field"
  req_messages :: "message field"

record create_chat_request =
  create_body :: "create_chat_body option"

record add_message_body =
  body_msg :: "string option"
  body_msgFrom :: "string option"
  body_msgDateTime :: "js_value option"

record add_message_request =
  add_body :: "add_message_body option"
  add_chatId :: "string option"





text \<open>Responses: the status and what \<open>send\<close> or \<open>json\<close> was given.\<close>

datatype resp_body = Text string | JsonChat chat | JsonChats "chat list"

record response =
  status :: nat
  content :: resp_body

text \<open>
  Socket emissions: \<open>socket.emit\<close> addresses every connected socket, \<open>socket.to(room).emit\<close>
  the sockets of a room.
\<close>

datatype target = AllSockets | Room string

datatype emission = Emit target string chat_update

text \<open>
  \<open>populateDocument\<close> is a utility of the database layer: it reads the database and
  returns the populated chat or an object with an \<open>error\<close> field, or throws. The routes
  take it as the parameter \<open>populateDocument\<close>.
\<close>

type_synonym populate_fn = "string option \<Rightarrow> string \<Rightarrow> db \<Rightarrow> (string + chat) outcome"

definition isArray :: "'a field \<Rightarrow> bool" where
  "isArray f = (case f of Array xs \<Rightarrow> True | _ \<Rightarrow> False)"

definition elements :: "'a field \<Rightarrow> 'a list" where
  "elements f = (case f of Array xs \<Rightarrow> xs | _ \<Rightarrow> [])"

definition isCreateChatRequestValid :: "create_chat_request \<Rightarrow> bool" where
  "isCreateChatRequestValid req =
     (case create_body req of
        None \<Rightarrow> False
      | Some body \<Rightarrow>
          req_participants body \<noteq> Undefined \<and>
          isArray (req_participants body) \<and>
          length (elements (req_participants body)) > 0 \<and>
          req_messages body \<noteq> Undefined \<and>
          isArray (req_messages body))"

definition isAddMessageRequestValid :: "add_message_request \<Rightarrow> bool" where
  "isAddMessageRequestValid req =
     (case add_body req of
        None \<Rightarrow> False
      | Some body \<Rightarrow>
          body_msg body \<noteq> None \<and>
          body_msg body \<noteq> Some [] \<and>
          body_msgFrom body \<noteq> None \<and>
          add_chatId req \<noteq> None \<and>
          add_chatId req \<noteq> Some [])"


text \<open>
  The body of a valid create-chat request as \<open>saveChat\<close> reads it, and the message that
  \<open>addMessageToChatRoute\<close> builds from a valid body: \<open>msgDateTime || new Date()\<close> takes
  the value of the body when there is one and it is truthy, and the clock's date when
  the field is undefined or its value is falsy.
\<close>

definition chatPayload :: "create_chat_body \<Rightarrow> create_chat_payload" where
  "chatPayload body =
     \<lparr>payload_participants = elements (req_participants body),
      payload_messages = elements (req_messages body)\<rparr>"

definition messageData :: "nat \<Rightarrow> add_message_body \<Rightarrow> message" where
  "messageData now body =
     \<lparr>msg = the (body_msg body),
      msgFrom = the (body_msgFrom body),
      msgDateTime = (case body_msgDateTime body of
                       Some t \<Rightarrow> if truthy t then t else JDate now
                     | None \<Rightarrow> JDate now),
      msgType = ''direct''\<rparr>"

text \<open>
  The routes. Each returns the response, the socket emissions it made and the database
  it leaves. An \<open>Error\<close> made from a message \<open>m\<close> prints as \<open>Error: m\<close> in the template
  literal of the \<open>catch\<close> block.
\<close>

definition createChatRoute ::
  "populate_fn \<Rightarrow> create_chat_request \<Rightarrow> db \<Rightarrow> response \<times> emission list \<times> db" where
  "createChatRoute populateDocument req d =
     (if \<not> isCreateChatRequestValid req then
        (\<lparr>status = 400, content = Text ''Invalid chat request body''\<rparr>, [], d)
      else
        (let body = the (create_body req)
         in case saveChat (chatPayload body) d of
              (Inl error, d1) \<Rightarrow>
                (\<lparr>status = 500,
                  content = Text (''Error when creating chat: '' @ ''Error: '' @ error)\<rparr>, [], d1)
            | (Inr result, d1) \<Rightarrow>
                (case populateDocument (chat_id result) ''chat'' d1 of
                   Throws error \<Rightarrow>
                     (\<lparr>status = 500, content = Text (''Error when creating chat: '' @ error)\<rparr>,
                      [], d1)
                 | Returns (Inl error) \<Rightarrow>
                     (\<lparr>status = 500,
                       content = Text (''Error when creating chat: '' @ ''Error: '' @ error)\<rparr>,
                      [], d1)
                 | Returns (Inr populatedResult) \<Rightarrow>
                     (\<lparr>status = 200, content = JsonChat populatedResult\<rparr>,
                      [Emit AllSockets ''chatUpdate''
                         \<lparr>upd_chat = populatedResult, upd_type = ''created''\<rparr>],
                      d1))))"

definition addMessageToChatRoute ::
  "populate_fn \<Rightarrow> nat \<Rightarrow> add_message_request \<Rightarrow> db \<Rightarrow> response \<times> emission list \<times> db" where
  "addMessageToChatRoute populateDocument now req d =
     (if \<not> isAddMessageRequestValid req then
        (\<lparr>status = 400, content = Text ''Invalid message request body''\<rparr>, [], d)
      else
        (let chatId = the (add_chatId req);
             body = the (add_body req)
         in case createMessage (messageData now body) d of
              (Inl error, d1) \<Rightarrow>
                (\<lparr>status = 500,
                  content = Text (''Error when adding message to chat: '' @ ''Error: '' @ error)\<rparr>,
                 [], d1)
            | (Inr createdMessage, d1) \<Rightarrow>
                if msg_id createdMessage = [] then
                  (\<lparr>status = 500,
                    content = Text (''Error when adding message to chat: ''
                                    @ ''Error: Created message missing ID'')\<rparr>, [], d1)
                else
                  (case addMessageToChat chatId (msg_id createdMessage) d1 of
                     (Inl error, d2) \<Rightarrow>
                       (\<lparr>status = 500,
                         content = Text (''Error when adding message to chat: ''
                                         @ ''Error: '' @ error)\<rparr>, [], d2)
                   | (Inr chatResult, d2) \<Rightarrow>
                       (case populateDocument (chat_id chatResult) ''chat'' d2 of
                          Throws error \<Rightarrow>
                            (\<lparr>status = 500,
                              content = Text (''Error when adding message to chat: '' @ error)\<rparr>,
                             [], d2)
                        | Returns (Inl error) \<Rightarrow>
                            (\<lparr>status = 500,
                              content = Text (''Error when adding message to chat: ''
                                              @ ''Error: '' @ error)\<rparr>, [], d2)
                        | Returns (Inr populatedResult) \<Rightarrow>
                            (\<lparr>status = 200, content = JsonChat chatResult\<rparr>,
                             [Emit (Room chatId) ''chatUpdate''
                                \<lparr>upd_chat = chatResult, upd_type = ''newMessage''\<rparr>],
                             d2)))))"









section \<open>Sample data\<close>

text \<open>
  A small database, an instance of the parameter \<open>populateDocument\<close> that reads the chat
  with the given identifier, and requests, on which the routes and the hook are run.
\<close>

definition alice :: user where
  "alice = \<lparr>user_id = ''a1'', username = ''alice''\<rparr>"

definition bob :: user where
  "bob = \<lparr>user_id = ''b2'', username = ''bob''\<rparr>"

definition sampleDb :: db where
  "sampleDb =
     \<lparr>UserModel = [alice, bob], MessageModel = [],
      ChatModel = [\<lparr>doc_id = ''c1'', doc_participants = [''a1''], doc_messages = []\<rparr>],
      nextId = 0, faults = []\<rparr>"

definition samplePopulate :: populate_fn where
  "samplePopulate i kind d =
     (case i of
        None \<Rightarrow> Returns (Inl ''Invalid id'')
      | Some c \<Rightarrow>
          (case find (\<lambda>x. doc_id x = c) (ChatModel d) of
             None \<Rightarrow> Returns (Inl ''Document not found'')
           | Some x \<Rightarrow> Returns (Inr (populate d x))))"

definition sampleChat :: chat where
  "sampleChat = \<lparr>chat_id = Some ''c1'', participants = [''a1''], messages = []\<rparr>"

definition sampleState :: hook_state where
  "sampleState =
     \<lparr>showCreatePanel = False, chatToCreate = [], selectedChat = Some sampleChat,
      chats = [sampleChat], newMessage = ''hello''\<rparr>"

definition sampleAddMessage :: add_message_request where
  "sampleAddMessage =
     \<lparr>add_body = Some \<lparr>body_msg = Some ''  '', body_msgFrom = Some ''alice'',
                        body_msgDateTime = None\<rparr>,
      add_chatId = Some ''c1''\<rparr>"

definition sampleCreateChat :: create_chat_request where
  "sampleCreateChat =
     \<lparr>create_body = Some \<lparr>req_participants = Array [''alice'', ''507f1f77bcf86cd799439011''],
                           req_messages = Array []\<rparr>\<rparr>"

definition samplePayload :: create_chat_payload where
  "samplePayload =
     \<lparr>payload_participants = [''alice'', ''507f1f77bcf86cd799439011''], payload_messages = []\<rparr>"

definition sampleSavedChat :: chat where
  "sampleSavedChat =
     \<lparr>chat_id = Some ''oid0'', participants = [''a1'', ''507f1f77bcf86cd799439011''],
      messages = []\<rparr>"




definition sampleInitialState :: hook_state where
  "sampleInitialState =
     \<lparr>showCreatePanel = False, chatToCreate = [], selectedChat = None, chats = [],
      newMessage = []\<rparr>"

definition sampleDraft :: chat where
  "sampleDraft = \<lparr>chat_id = None, participants = [''a1''], messages = []\<rparr>"

definition sampleDraftUpdate :: chat_update where
  "sampleDraftUpdate =
     \<lparr>upd_chat = \<lparr>chat_id = None, participants = [''a1'', ''b2''], messages = []\<rparr>,
      upd_type = ''newMessage''\<rparr>"

definition sampleZeroDate :: add_message_request where
  "sampleZeroDate =
     \<lparr>add_body = Some \<lparr>body_msg = Some ''hello'', body_msgFrom = Some ''alice'',
                        body_msgDateTime = Some (JNum 0)\<rparr>,
      add_chatId = Some ''c1''\<rparr>"

definition sampleGivenDate :: add_message_request where
  "sampleGivenDate =
     \<lparr>add_body = Some \<lparr>body_msg = Some ''hello'', body_msgFrom = Some ''alice'',
                        body_msgDateTime = Some (JStr ''2025-01-01T00:00:00.000Z'')\<rparr>,
      add_chatId = Some ''c1''\<rparr>"

section \<open>The client's reconciliation of a chat update\<close>

lemma mount_in_step:
  "selectedChatId (captured (mount st)) = selectedChatId (selectedChat (hook (mount st)))"
  by (simp add: mount_def)

lemma render_in_step:
  "selectedChatId (captured m) = selectedChatId (selectedChat (hook m)) \<Longrightarrow>
     selectedChatId (captured (render st m)) = selectedChatId (selectedChat (hook (render st m)))"
  by (simp add: render_def)

text \<open>
  C4, as the code has it. On a \<open>chatUpdate\<close> event of type \<open>created\<close> the chat is appended
  to the list of chats unless a chat with the same \<open>_id\<close> is already there, in which case
  nothing changes. On type \<open>newMessage\<close> the list of chats keeps its length, with the
  entries of the update's \<open>_id\<close> replaced and every other entry unchanged, and the selected
  chat is replaced exactly when the selection that the handler captured is not null and
  has the \<open>_id\<close> of the update's chat. The captured selection and the current one agree on
  \<open>selectedChat?._id\<close>, after mounting and after every render; then a selected chat that
  has an \<open>_id\<close> is replaced exactly when its \<open>_id\<close> is the one of the update's chat. On
  any other type the handler throws.
\<close>

theorem handleChatUpdate_reconciles:
  "(upd_type u = ''created'' \<longrightarrow>
      handleChatUpdate capturedChat u st =
        Inr (st\<lparr>chats := (if \<exists>c \<in> set (chats st). chat_id c = chat_id (upd_chat u)
                           then chats st else chats st @ [upd_chat u])\<rparr>))
   \<and> (upd_type u = ''newMessage'' \<longrightarrow>
      (\<exists>st'. handleChatUpdate capturedChat u st = Inr st'
         \<and> showCreatePanel st' = showCreatePanel st \<and> chatToCreate st' = chatToCreate st
         \<and> newMessage st' = newMessage st
         \<and> selectedChat st' =
             (case capturedChat of
                None \<Rightarrow> selectedChat st
              | Some sel \<Rightarrow> if chat_id sel = chat_id (upd_chat u) then Some (upd_chat u)
                            else selectedChat st)
         \<and> (selectedChatId capturedChat = selectedChatId (selectedChat st) \<longrightarrow>
              (\<forall>sel i. selectedChat st = Some sel \<and> chat_id sel = Some i \<longrightarrow>
                 selectedChat st' = (if chat_id (upd_chat u) = Some i then Some (upd_chat u)
                                     else Some sel)))
         \<and> length (chats st') = length (chats st)
         \<and> (\<forall>i < length (chats st).
               chats st' ! i = (if chat_id (chats st ! i) = chat_id (upd_chat u)
                                then upd_chat u else chats st ! i))))
   \<and> (upd_type u \<noteq> ''created'' \<and> upd_type u \<noteq> ''newMessage'' \<longrightarrow>
      handleChatUpdate capturedChat u st = Inl (''Error: Invalid chatUpdate type: '' @ upd_type u))
   \<and> selectedChatId (captured (mount st)) = selectedChatId (selectedChat (hook (mount st)))
   \<and> (selectedChatId (captured m) = selectedChatId (selectedChat (hook m)) \<longrightarrow>
        selectedChatId (captured (render st m))
          = selectedChatId (selectedChat (hook (render st m))))"
proof -
  have "upd_type u = ''newMessage'' \<Longrightarrow>
      (\<exists>st'. handleChatUpdate capturedChat u st = Inr st'
         \<and> showCreatePanel st' = showCreatePanel st \<and> chatToCreate st' = chatToCreate st
         \<and> newMessage st' = newMessage st
         \<and> selectedChat st' =
             (case capturedChat of
                None \<Rightarrow> selectedChat st
              | Some sel \<Rightarrow> if chat_id sel = chat_id (upd_chat u) then Some (upd_chat u)
                            else selectedChat st)
         \<and> (selectedChatId capturedChat = selectedChatId (selectedChat st) \<longrightarrow>
              (\<forall>sel i. selectedChat st = Some sel \<and> chat_id sel = Some i \<longrightarrow>
                 selectedChat st' = (if chat_id (upd_chat u) = Some i then Some (upd_chat u)
                                     else Some sel)))
         \<and> length (chats st') = length (chats st)
         \<and> (\<forall>i < length (chats st).
               chats st' ! i = (if chat_id (chats st ! i) = chat_id (upd_chat u)
                                then upd_chat u else chats st ! i)))"
    by (cases capturedChat)
       (auto simp: handleChatUpdate_def Let_def selectedChatId_def)
  moreover have "upd_type u = ''created'' \<Longrightarrow>
      handleChatUpdate capturedChat u st =
        Inr (st\<lparr>chats := (if \<exists>c \<in> set (chats st). chat_id c = chat_id (upd_chat u)
                           then chats st else chats st @ [upd_chat u])\<rparr>)"
    by (auto simp: handleChatUpdate_def Let_def list_ex_iff)
  moreover have "upd_type u \<noteq> ''created'' \<and> upd_type u \<noteq> ''newMessage'' \<Longrightarrow>
      handleChatUpdate capturedChat u st = Inl (''Error: Invalid chatUpdate type: '' @ upd_type u)"
    by (simp add: handleChatUpdate_def Let_def)
  ultimately show ?thesis
    using mount_in_step[of st] render_in_step[of m st] by blast
qed

text \<open>
  C4 as stated fails. The hook starts with no selection, which the handler captures;
  a chat without \<open>_id\<close> is then selected, which leaves \<open>selectedChat?._id\<close> undefined, so
  the effect does not run again. A \<open>newMessage\<close> update whose chat has no \<open>_id\<close> either
  then finds the \<open>_id\<close>s equal and yet leaves the selected chat as it was.
\<close>

theorem handleChatUpdate_selection_counterexample:
  "upd_type sampleDraftUpdate = ''newMessage''
   \<and> selectedChat (hook (render (sampleInitialState\<lparr>selectedChat := Some sampleDraft\<rparr>)
                            (mount sampleInitialState))) = Some sampleDraft
   \<and> chat_id sampleDraft = chat_id (upd_chat sampleDraftUpdate)
   \<and> on_chatUpdate sampleDraftUpdate
        (render (sampleInitialState\<lparr>selectedChat := Some sampleDraft\<rparr>) (mount sampleInitialState))
      = Inr (render (sampleInitialState\<lparr>selectedChat := Some sampleDraft\<rparr>)
               (mount sampleInitialState))
   \<and> sampleDraft \<noteq> upd_chat sampleDraftUpdate"
  by (simp add: sampleDraftUpdate_def sampleDraft_def sampleInitialState_def on_chatUpdate_def
                render_def mount_def handleChatUpdate_def selectedChatId_def Let_def)

theorem handleChatUpdate_reconciles_witness:
  "handleChatUpdate None \<lparr>upd_chat = sampleChat, upd_type = ''created''\<rparr> sampleState
     = Inr sampleState
   \<and> handleChatUpdate None \<lparr>upd_chat = sampleChat\<lparr>chat_id := Some ''c2''\<rparr>,
                              upd_type = ''created''\<rparr> sampleState
      = Inr (sampleState\<lparr>chats := [sampleChat, sampleChat\<lparr>chat_id := Some ''c2''\<rparr>]\<rparr>)
   \<and> (\<exists>st'. handleChatUpdate (captured (mount sampleState))
                \<lparr>upd_chat = sampleChat\<lparr>participants := [''a1'', ''b2'']\<rparr>,
                  upd_type = ''newMessage''\<rparr> sampleState = Inr st'
          \<and> selectedChat st' = Some (sampleChat\<lparr>participants := [''a1'', ''b2'']\<rparr>)
          \<and> length (chats st') = length (chats sampleState))
   \<and> handleChatUpdate None \<lparr>upd_chat = sampleChat, upd_type = ''deleted''\<rparr> sampleState
      = Inl ''Error: Invalid chatUpdate type: deleted''
   \<and> selectedChatId (captured (render sampleState (mount sampleState)))
      = selectedChatId (selectedChat (hook (render sampleState (mount sampleState))))"
proof -
  have sel: "selectedChat sampleState = Some sampleChat" "chat_id sampleChat = Some ''c1''"
    by (simp_all add: sampleState_def sampleChat_def)
  have step: "selectedChatId (captured (mount sampleState))
      = selectedChatId (selectedChat sampleState)"
    by (simp add: mount_def)
  from handleChatUpdate_reconciles
         [of "\<lparr>upd_chat = sampleChat, upd_type = ''created''\<rparr>" None sampleState]
  have "handleChatUpdate None \<lparr>upd_chat = sampleChat, upd_type = ''created''\<rparr> sampleState
     = Inr sampleState"
    by (simp add: sampleState_def sampleChat_def)
  moreover from handleChatUpdate_reconciles
         [of "\<lparr>upd_chat = sampleChat\<lparr>chat_id := Some ''c2''\<rparr>, upd_type = ''created''\<rparr>"
             None sampleState]
  have "handleChatUpdate None \<lparr>upd_chat = sampleChat\<lparr>chat_id := Some ''c2''\<rparr>,
                              upd_type = ''created''\<rparr> sampleState
      = Inr (sampleState\<lparr>chats := [sampleChat, sampleChat\<lparr>chat_id := Some ''c2''\<rparr>]\<rparr>)"
    by (simp add: sampleState_def sampleChat_def)
  moreover from handleChatUpdate_reconciles
         [of "\<lparr>upd_chat = sampleChat\<lparr>participants := [''a1'', ''b2'']\<rparr>,
               upd_type = ''newMessage''\<rparr>" "captured (mount sampleState)" sampleState]
       sel step
  have "\<exists>st'. handleChatUpdate (captured (mount sampleState))
                \<lparr>upd_chat = sampleChat\<lparr>participants := [''a1'', ''b2'']\<rparr>,
                  upd_type = ''newMessage''\<rparr> sampleState = Inr st'
          \<and> selectedChat st' = Some (sampleChat\<lparr>participants := [''a1'', ''b2'']\<rparr>)
          \<and> length (chats st') = length (chats sampleState)"
    by auto
  moreover from handleChatUpdate_reconciles
         [of "\<lparr>upd_chat = sampleChat, upd_type = ''deleted''\<rparr>" None sampleState]
  have "handleChatUpdate None \<lparr>upd_chat = sampleChat, upd_type = ''deleted''\<rparr> sampleState
      = Inl ''Error: Invalid chatUpdate type: deleted''"
    by simp
  moreover from handleChatUpdate_reconciles
         [of "\<lparr>upd_chat = sampleChat, upd_type = ''deleted''\<rparr>" None sampleState
             "mount sampleState"]
  have "selectedChatId (captured (render sampleState (mount sampleState)))
      = selectedChatId (selectedChat (hook (render sampleState (mount sampleState))))"
    by blast
  ultimately show ?thesis by blast
qed

section \<open>Sending a message from the client\<close>

lemma dropWhile_all_iff: "(\<forall>x \<in> set (dropWhile P s). P x) \<longleftrightarrow> (\<forall>x \<in> set s. P x)"
  by (induction s) auto

lemma trim_empty_iff: "trim s = [] \<longleftrightarrow> (\<forall>c \<in> set s. isWhiteSpace c)"
  by (simp add: trim_def dropWhile_all_iff)

text \<open>
  C10. \<open>handleSendMessage\<close> calls no service and returns the state as it was when the new
  message is empty or all white space, when no chat is selected, or when the selected
  chat has no \<open>_id\<close> (or an empty one); when the text is not blank, a chat with a non-empty \<open>_id\<close> is
  selected and the service returns the updated chat, the service was called once with
  the text, the user's name and the clock's time, the selected chat is the returned one
  and the new message is the empty string, everything else unchanged.
\<close>

theorem handleSendMessage_frame:
  "((\<forall>c \<in> set (newMessage st). isWhiteSpace c) \<or> selectedChat st = None
      \<or> (\<exists>sel. selectedChat st = Some sel \<and> (chat_id sel = None \<or> chat_id sel = Some []))
     \<longrightarrow> handleSendMessage sendMessage usr now st = (st, []))
   \<and> (\<forall>sel cid updatedChat.
        \<not> (\<forall>c \<in> set (newMessage st). isWhiteSpace c) \<and> selectedChat st = Some sel
        \<and> chat_id sel = Some cid \<and> cid \<noteq> []
        \<and> sendMessage \<lparr>send_msg = newMessage st, send_msgFrom = username usr,
                        send_msgDateTime = now\<rparr> cid = Returns updatedChat
        \<longrightarrow> handleSendMessage sendMessage usr now st =
              (st\<lparr>selectedChat := Some updatedChat, newMessage := []\<rparr>,
               [(\<lparr>send_msg = newMessage st, send_msgFrom = username usr,
                  send_msgDateTime = now\<rparr>, cid)]))"
  by (auto simp: handleSendMessage_def trim_empty_iff Let_def split: option.splits)

theorem handleSendMessage_frame_witness:
  "handleSendMessage (\<lambda>p c. Returns (sampleChat\<lparr>participants := [''a1'', ''b2'']\<rparr>)) alice 77
       (sampleState\<lparr>newMessage := [CHR '' '', CHR 0x09]\<rparr>)
     = (sampleState\<lparr>newMessage := [CHR '' '', CHR 0x09]\<rparr>, [])
   \<and> handleSendMessage (\<lambda>p c. Returns (sampleChat\<lparr>participants := [''a1'', ''b2'']\<rparr>)) alice 77
        sampleState
     = (sampleState\<lparr>selectedChat := Some (sampleChat\<lparr>participants := [''a1'', ''b2'']\<rparr>),
                     newMessage := []\<rparr>,
        [(\<lparr>send_msg = ''hello'', send_msgFrom = ''alice'', send_msgDateTime = 77\<rparr>, ''c1'')])"
  using handleSendMessage_frame
          [of "sampleState\<lparr>newMessage := [CHR '' '', CHR 0x09]\<rparr>"
              "\<lambda>p c. Returns (sampleChat\<lparr>participants := [''a1'', ''b2'']\<rparr>)" alice 77]
        handleSendMessage_frame
          [of sampleState "\<lambda>p c. Returns (sampleChat\<lparr>participants := [''a1'', ''b2'']\<rparr>)"
              alice 77]
  by (simp add: sampleState_def sampleChat_def alice_def isWhiteSpace_def)

section \<open>Facts about the database calls and the services\<close>

lemma MessageModel_create_cases:
  assumes "MessageModel_create m d = (r, d')"
  shows "(\<exists>doc. r = Returns (Some doc) \<and> msg doc = msg m \<and> msgFrom doc = msgFrom m
            \<and> msgDateTime doc = msgDateTime m \<and> msgType doc = msgType m
            \<and> msg_id doc = newObjectId (nextId d)
            \<and> MessageModel d' = MessageModel d @ [doc] \<and> nextId d' = Suc (nextId d)
            \<and> (faults d = [] \<or> (\<exists>fs. faults d = NoFault # fs)))
         \<or> ((r = Returns None \<or> (\<exists>e. r = Throws e)) \<and> MessageModel d' = MessageModel d
             \<and> nextId d' = nextId d \<and> faults d \<noteq> [])"
    and "UserModel d' = UserModel d" and "ChatModel d' = ChatModel d"
    and "faults d' = tl (faults d)"
  using assms
  by (auto simp: MessageModel_create_def db_call_def Let_def split: list.splits fault.splits)

lemma createMessage_cases:
  assumes "createMessage m d = (r, d')"
  shows "(\<exists>doc. r = Inr doc \<and> msg doc = msg m \<and> msgFrom doc = msgFrom m
            \<and> msgDateTime doc = msgDateTime m \<and> msgType doc = msgType m
            \<and> msg_id doc = newObjectId (nextId d)
            \<and> MessageModel d' = MessageModel d @ [doc]
            \<and> (faults d = [] \<or> (\<exists>fs. faults d = NoFault # fs)))
         \<or> ((\<exists>e. r = Inl e) \<and> MessageModel d' = MessageModel d \<and> faults d \<noteq> [])"
  using assms
  by (auto simp: createMessage_def MessageModel_create_def db_call_def Let_def
           split: list.splits fault.splits)


lemma ChatModel_findByIdAndUpdate_frame:
  assumes "ChatModel_findByIdAndUpdate i upd d = (r, d')"
  shows "MessageModel d' = MessageModel d" and "UserModel d' = UserModel d"
    and "nextId d' = nextId d" and "faults d' = tl (faults d)"
  using assms
  by (auto simp: ChatModel_findByIdAndUpdate_def db_call_def
           split: list.splits fault.splits option.splits)

lemma find_Some_holds: "find P xs = Some x \<Longrightarrow> P x \<and> x \<in> set xs"
  by (induction xs) (auto split: if_splits)


lemma addMessageToChat_frame:
  assumes "addMessageToChat chatId messageId d = (r, d')"
  shows "MessageModel d' = MessageModel d" and "UserModel d' = UserModel d"
proof -
  obtain r0 where "ChatModel_findByIdAndUpdate chatId (push_message messageId) d = (r0, d')"
    using assms by (auto simp: addMessageToChat_def split: prod.splits outcome.splits option.splits)
  then show "MessageModel d' = MessageModel d" and "UserModel d' = UserModel d"
    by (simp_all add: ChatModel_findByIdAndUpdate_frame)
qed


lemma isAddMessageRequestValid_iff:
  "isAddMessageRequestValid req \<longleftrightarrow>
     (\<exists>b m f c. add_body req = Some b \<and> body_msg b = Some m \<and> m \<noteq> [] \<and> body_msgFrom b = Some f
        \<and> add_chatId req = Some c \<and> c \<noteq> [])"
  by (auto simp: isAddMessageRequestValid_def split: option.splits)

lemma UserModel_findOne_cases:
  assumes "UserModel_findOne name d = (r, d')"
  shows "UserModel d' = UserModel d" and "MessageModel d' = MessageModel d"
    and "ChatModel d' = ChatModel d" and "nextId d' = nextId d" and "faults d' = tl (faults d)"
    and "r = Returns (Some u) \<Longrightarrow> u \<in> set (UserModel d) \<and> username u = name"
    and "faults d = [] \<Longrightarrow> r = Returns (find (\<lambda>u. username u = name) (UserModel d))"
  using assms
  by (auto simp: UserModel_findOne_def db_call_def
           split: list.splits fault.splits dest: find_Some_holds)

lemma resolveParticipants_frame:
  "resolveParticipants ps d = (r, d') \<Longrightarrow>
     UserModel d' = UserModel d \<and> MessageModel d' = MessageModel d
     \<and> ChatModel d' = ChatModel d \<and> nextId d' = nextId d"
proof (induction ps arbitrary: d r d')
  case Nil
  then show ?case by simp
next
  case (Cons p ps)
  obtain r1 d1 where f: "UserModel_findOne p d = (r1, d1)"
    by (cases "UserModel_findOne p d")
  note fr = UserModel_findOne_cases(1-4)[OF f]
  show ?case
  proof (cases r1)
    case (Throws e)
    with Cons.prems f fr show ?thesis by simp
  next
    case (Returns usr)
    obtain r2 d2 where rest: "resolveParticipants ps d1 = (r2, d2)"
      by (cases "resolveParticipants ps d1")
    from Cons.IH[OF rest] fr have "UserModel d2 = UserModel d \<and> MessageModel d2 = MessageModel d
        \<and> ChatModel d2 = ChatModel d \<and> nextId d2 = nextId d"
      by simp
    moreover have "d' = d2"
      using Cons.prems f Returns rest by (auto split: outcome.splits)
    ultimately show ?thesis by simp
  qed
qed

lemma resolveParticipants_result:
  "resolveParticipants ps d = (Returns ids, d') \<Longrightarrow>
     list_all2 (\<lambda>p i. i = p \<or> (\<exists>u \<in> set (UserModel d). username u = p \<and> user_id u = i)) ps ids"
proof (induction ps arbitrary: d ids d')
  case Nil
  then show ?case by simp
next
  case (Cons p ps)
  obtain r1 d1 where f: "UserModel_findOne p d = (r1, d1)"
    by (cases "UserModel_findOne p d")
  from Cons.prems f obtain usr where r1: "r1 = Returns usr"
    by (cases r1) auto
  obtain r2 d2 where rest: "resolveParticipants ps d1 = (r2, d2)"
    by (cases "resolveParticipants ps d1")
  from Cons.prems f r1 rest obtain ids' where r2: "r2 = Returns ids'"
      and ids: "ids = (case usr of Some u \<Rightarrow> user_id u | None \<Rightarrow> p) # ids'"
    by (cases r2) auto
  have "list_all2 (\<lambda>p i. i = p \<or> (\<exists>u \<in> set (UserModel d1). username u = p \<and> user_id u = i)) ps ids'"
    using Cons.IH rest r2 by simp
  moreover have "UserModel d1 = UserModel d"
    by (rule UserModel_findOne_cases(1)[OF f])
  moreover have "(case usr of Some u \<Rightarrow> user_id u | None \<Rightarrow> p) = p
      \<or> (\<exists>u \<in> set (UserModel d). username u = p
            \<and> user_id u = (case usr of Some u \<Rightarrow> user_id u | None \<Rightarrow> p))"
    using UserModel_findOne_cases(6)[OF f] r1 by (cases usr) auto
  ultimately show ?case using ids by simp
qed

lemma resolveParticipants_no_fault:
  "faults d = [] \<Longrightarrow>
     resolveParticipants ps d =
       (Returns (map (\<lambda>p. case find (\<lambda>u. username u = p) (UserModel d) of
                              Some u \<Rightarrow> user_id u | None \<Rightarrow> p) ps), d)"
  by (induction ps) (simp_all add: UserModel_findOne_def db_call_def)

lemma createMessages_frame:
  "createMessages ms d = (r, d') \<Longrightarrow>
     UserModel d' = UserModel d \<and> ChatModel d' = ChatModel d \<and> nextId d \<le> nextId d'"
proof (induction ms arbitrary: d r d')
  case Nil
  then show ?case by simp
next
  case (Cons m ms)
  obtain r1 d1 where c: "MessageModel_create m d = (r1, d1)"
    by (cases "MessageModel_create m d")
  from MessageModel_create_cases[OF c]
  have fr: "UserModel d1 = UserModel d" "ChatModel d1 = ChatModel d" "nextId d \<le> nextId d1"
    by auto
  show ?case
  proof (cases "\<exists>doc. r1 = Returns (Some doc)")
    case False
    with Cons.prems c fr show ?thesis
      by (auto split: outcome.splits option.splits)
  next
    case True
    then obtain doc where r1: "r1 = Returns (Some doc)" by blast
    obtain r2 d2 where rest: "createMessages ms d1 = (r2, d2)"
      by (cases "createMessages ms d1")
    from Cons.IH[OF rest] fr have "UserModel d2 = UserModel d \<and> ChatModel d2 = ChatModel d
        \<and> nextId d \<le> nextId d2"
      by simp
    moreover have "d' = d2"
      using Cons.prems c r1 rest by (auto split: outcome.splits)
    ultimately show ?thesis by simp
  qed
qed

lemma createMessages_length:
  "createMessages ms d = (Returns ids, d') \<Longrightarrow> length ids = length ms"
proof (induction ms arbitrary: d ids d')
  case Nil
  then show ?case by simp
next
  case (Cons m ms)
  then show ?case
    by (auto split: prod.splits outcome.splits option.splits)
qed

lemma createMessages_no_fault:
  "faults d = [] \<Longrightarrow>
     \<exists>ids d'. createMessages ms d = (Returns ids, d') \<and> length ids = length ms \<and> faults d' = []"
proof (induction ms arbitrary: d)
  case Nil
  then show ?case by simp
next
  case (Cons m ms)
  obtain r1 d1 where c: "MessageModel_create m d = (r1, d1)"
    by (cases "MessageModel_create m d")
  from MessageModel_create_cases[OF c] Cons.prems obtain doc where
      r1: "r1 = Returns (Some doc)" and f1: "faults d1 = []"
    by auto
  from Cons.IH[OF f1] obtain ids d2 where
      "createMessages ms d1 = (Returns ids, d2)" "length ids = length ms" "faults d2 = []"
    by blast
  with c r1 show ?case by simp
qed


lemma ChatModel_create_cases:
  assumes "ChatModel_create ps ms d = (Returns (Some doc), d')"
  shows "doc = \<lparr>doc_id = newObjectId (nextId d), doc_participants = ps, doc_messages = ms\<rparr>"
    and "ChatModel d' = ChatModel d @ [doc]" and "UserModel d' = UserModel d"
    and "MessageModel d' = MessageModel d"
  using assms
  by (auto simp: ChatModel_create_def db_call_def Let_def split: list.splits fault.splits)

lemma ChatModel_findById_cases:
  assumes "ChatModel_findById i d = (Returns (Some c), d')"
  shows "ChatModel d' = ChatModel d" and "UserModel d' = UserModel d"
    and "MessageModel d' = MessageModel d"
    and "\<exists>x. find (\<lambda>c. doc_id c = i) (ChatModel d) = Some x \<and> chat_id c = Some (doc_id x)
           \<and> participants c = doc_participants x"
  using assms
  by (auto simp: ChatModel_findById_def db_call_def populate_def split: list.splits fault.splits)

lemma find_append_fresh:
  "\<forall>x \<in> set xs. \<not> P x \<Longrightarrow> P y \<Longrightarrow> find P (xs @ [y]) = Some y"
  by (induction xs) auto

lemma saveChat_Inr:
  assumes "saveChat payload d = (Inr c, d')"
  shows "\<exists>doc k. ChatModel d' = ChatModel d @ [doc] \<and> UserModel d' = UserModel d
           \<and> nextId d \<le> k \<and> doc_id doc = newObjectId k
           \<and> list_all2 (\<lambda>p i. i = p \<or> (\<exists>u \<in> set (UserModel d). username u = p \<and> user_id u = i))
                (payload_participants payload) (doc_participants doc)
           \<and> length (doc_messages doc) = length (payload_messages payload)
           \<and> (newObjectId k \<notin> doc_id ` set (ChatModel d) \<longrightarrow>
                 chat_id c = Some (doc_id doc) \<and> participants c = doc_participants doc)"
proof -
  from assms obtain pids d1 mids d2 doc d3 where
      rp: "resolveParticipants (payload_participants payload) d = (Returns pids, d1)"
      and cm: "createMessages (payload_messages payload) d1 = (Returns mids, d2)"
      and cc: "ChatModel_create pids mids d2 = (Returns (Some doc), d3)"
      and fb: "ChatModel_findById (doc_id doc) d3 = (Returns (Some c), d')"
    unfolding saveChat_def saveChat_try_def
    by (auto split: prod.splits outcome.splits option.splits)
  note f1 = resolveParticipants_frame[OF rp]
  note f2 = createMessages_frame[OF cm]
  note f3 = ChatModel_create_cases[OF cc]
  note f4 = ChatModel_findById_cases[OF fb]
  have cms: "ChatModel d' = ChatModel d @ [doc]" and us: "UserModel d' = UserModel d"
    using f1 f2 f3 f4 by simp_all
  have k: "nextId d \<le> nextId d2" "doc_id doc = newObjectId (nextId d2)"
    using f1 f2 f3(1) by simp_all
  have ps: "doc_participants doc = pids" and ms: "doc_messages doc = mids"
    using f3(1) by simp_all
  have len: "length mids = length (payload_messages payload)"
    by (rule createMessages_length[OF cm])
  have ret: "chat_id c = Some (doc_id doc) \<and> participants c = doc_participants doc"
    if "newObjectId (nextId d2) \<notin> doc_id ` set (ChatModel d)"
  proof -
    have "find (\<lambda>c. doc_id c = doc_id doc) (ChatModel d3) = Some doc"
    proof -
      have "\<forall>x \<in> set (ChatModel d). \<not> doc_id x = doc_id doc"
        using that k(2) by (metis image_eqI)
      then show ?thesis
        using f3(2) f1 f2 by (simp add: find_append_fresh)
    qed
    with f4(4) show ?thesis by auto
  qed
  show ?thesis
    using cms us k ps ms len ret resolveParticipants_result[OF rp] by blast
qed


lemma find_append_last: "P y \<Longrightarrow> find P (xs @ [y]) \<noteq> None"
  by (induction xs) auto

lemma saveChat_no_fault:
  assumes "faults d = []"
  shows "\<exists>c d' doc. saveChat payload d = (Inr c, d') \<and> ChatModel d' = ChatModel d @ [doc]
           \<and> doc_participants doc =
               map (\<lambda>p. case find (\<lambda>u. username u = p) (UserModel d) of
                            Some u \<Rightarrow> user_id u | None \<Rightarrow> p) (payload_participants payload)
           \<and> length (doc_messages doc) = length (payload_messages payload)"
proof -
  let ?pids = "map (\<lambda>p. case find (\<lambda>u. username u = p) (UserModel d) of
                            Some u \<Rightarrow> user_id u | None \<Rightarrow> p) (payload_participants payload)"
  have rp: "resolveParticipants (payload_participants payload) d = (Returns ?pids, d)"
    by (rule resolveParticipants_no_fault[OF assms])
  obtain mids d2 where cm: "createMessages (payload_messages payload) d = (Returns mids, d2)"
      and len: "length mids = length (payload_messages payload)" and f2: "faults d2 = []"
    using createMessages_no_fault[OF assms] by blast
  have c2: "ChatModel d2 = ChatModel d"
    using createMessages_frame[OF cm] by simp
  define doc where "doc = \<lparr>doc_id = newObjectId (nextId d2), doc_participants = ?pids,
                           doc_messages = mids\<rparr>"
  define d3 where "d3 = d2\<lparr>ChatModel := ChatModel d2 @ [doc], nextId := Suc (nextId d2)\<rparr>"
  have cc: "ChatModel_create ?pids mids d2 = (Returns (Some doc), d3)"
    using f2 by (simp add: ChatModel_create_def db_call_def doc_def d3_def Let_def)
  have f3: "faults d3 = []" and c3: "ChatModel d3 = ChatModel d @ [doc]"
    using f2 c2 by (simp_all add: d3_def)
  obtain x where x: "find (\<lambda>c. doc_id c = doc_id doc) (ChatModel d3) = Some x"
    using find_append_last[of "\<lambda>c. doc_id c = doc_id doc" doc "ChatModel d"] c3 by auto
  have fb: "ChatModel_findById (doc_id doc) d3 = (Returns (Some (populate d3 x)), d3)"
    using f3 x by (simp add: ChatModel_findById_def db_call_def)
  have "saveChat payload d = (Inr (populate d3 x), d3)"
    by (simp add: saveChat_def saveChat_try_def rp cm cc fb)
  with c3 len show ?thesis
    by (auto simp: doc_def)
qed

lemma isCreateChatRequestValid_iff:
  "isCreateChatRequestValid req \<longleftrightarrow>
     (\<exists>ps ms. create_body req = Some \<lparr>req_participants = Array ps, req_messages = Array ms\<rparr>
        \<and> ps \<noteq> [])"
proof (cases "create_body req")
  case None
  then show ?thesis by (simp add: isCreateChatRequestValid_def)
next
  case (Some b)
  then show ?thesis
    by (cases b; cases "req_participants b"; cases "req_messages b")
       (auto simp: isCreateChatRequestValid_def isArray_def elements_def)
qed

lemma createChatRoute_db:
  "isCreateChatRequestValid req \<Longrightarrow> create_body req = Some b \<Longrightarrow>
     snd (snd (createChatRoute populateDocument req d)) = snd (saveChat (chatPayload b) d)"
  by (auto simp: createChatRoute_def Let_def split: prod.splits sum.splits outcome.splits)

lemma createChatRoute_status_400:
  "status (fst (createChatRoute populateDocument req d)) = 400 \<longleftrightarrow> \<not> isCreateChatRequestValid req"
  by (auto simp: createChatRoute_def Let_def split: prod.splits sum.splits outcome.splits)

section \<open>The add-message route\<close>

lemma truthy_iff:
  "truthy v \<longleftrightarrow> v \<noteq> JNull \<and> v \<noteq> JBool False \<and> v \<noteq> JNum 0 \<and> v \<noteq> JStr []"
  by (cases v) auto

lemma addMessageToChatRoute_messages:
  assumes "addMessageToChatRoute populateDocument now req d = (res, ems, d')"
  shows "(MessageModel d' = MessageModel d \<and> status res \<noteq> 200)
       \<or> (\<exists>b doc. add_body req = Some b \<and> MessageModel d' = MessageModel d @ [doc]
             \<and> msgType doc = ''direct'' \<and> body_msg b = Some (msg doc)
             \<and> body_msgFrom b = Some (msgFrom doc)
             \<and> msgDateTime doc = msgDateTime (messageData now b))"
proof (cases "isAddMessageRequestValid req")
  case False
  with assms show ?thesis by (auto simp: addMessageToChatRoute_def)
next
  case True
  then obtain b m f c where b: "add_body req = Some b" "body_msg b = Some m"
      "body_msgFrom b = Some f" "add_chatId req = Some c"
    unfolding isAddMessageRequestValid_iff by blast
  obtain r1 d1 where cm: "createMessage (messageData now b) d = (r1, d1)"
    by (cases "createMessage (messageData now b) d")
  show ?thesis
  proof (cases r1)
    case (Inl e)
    with createMessage_cases[OF cm] assms True b cm show ?thesis
      by (auto simp: addMessageToChatRoute_def)
  next
    case (Inr doc)
    with createMessage_cases[OF cm] have doc: "MessageModel d1 = MessageModel d @ [doc]"
      "msg doc = m" "msgFrom doc = f" "msgType doc = ''direct''"
      "msgDateTime doc = msgDateTime (messageData now b)"
      using b by (auto simp: messageData_def)
    have "MessageModel d' = MessageModel d1"
      using assms True b cm Inr
      by (auto simp: addMessageToChatRoute_def Let_def addMessageToChat_frame
               split: if_splits prod.splits sum.splits outcome.splits)
    with doc b show ?thesis by auto
  qed
qed

text \<open>
  C7, as the code has it. Whatever the request, the route leaves the collection of
  messages as it was, and then its status is not 200, or it has appended one message: of
  type \<open>direct\<close>, with the text and the sender of the body, and with the value that the
  body gives for \<open>msgDateTime\<close> when that value is truthy, and the time of the clock when
  the body gives none or gives a falsy one (\<open>null\<close>, \<open>false\<close>, \<open>0\<close> or the empty string).
\<close>

theorem addMessageToChatRoute_stores_direct_message:
  "(MessageModel (snd (snd (addMessageToChatRoute populateDocument now req d))) = MessageModel d
      \<and> status (fst (addMessageToChatRoute populateDocument now req d)) \<noteq> 200)
   \<or> (\<exists>b doc. add_body req = Some b
         \<and> MessageModel (snd (snd (addMessageToChatRoute populateDocument now req d)))
             = MessageModel d @ [doc]
         \<and> msgType doc = ''direct'' \<and> body_msg b = Some (msg doc)
         \<and> body_msgFrom b = Some (msgFrom doc)
         \<and> (\<forall>v. body_msgDateTime b = Some v \<and> v \<noteq> JNull \<and> v \<noteq> JBool False \<and> v \<noteq> JNum 0
                 \<and> v \<noteq> JStr [] \<longrightarrow> msgDateTime doc = v)
         \<and> (body_msgDateTime b \<in> {None, Some JNull, Some (JBool False), Some (JNum 0),
                                    Some (JStr [])} \<longrightarrow> msgDateTime doc = JDate now))"
proof -
  obtain res ems d' where r: "addMessageToChatRoute populateDocument now req d = (res, ems, d')"
    by (cases "addMessageToChatRoute populateDocument now req d")
  have dt: "(\<forall>v. body_msgDateTime b = Some v \<and> v \<noteq> JNull \<and> v \<noteq> JBool False \<and> v \<noteq> JNum 0
                 \<and> v \<noteq> JStr [] \<longrightarrow> msgDateTime (messageData now b) = v)
         \<and> (body_msgDateTime b \<in> {None, Some JNull, Some (JBool False), Some (JNum 0),
                                    Some (JStr [])}
              \<longrightarrow> msgDateTime (messageData now b) = JDate now)" for b
    by (auto simp: messageData_def truthy_iff)
  from addMessageToChatRoute_messages[OF r] show ?thesis
    unfolding r using dt by (auto simp del: insert_iff)
qed

text \<open>
  C7 as stated fails: a body that gives \<open>msgDateTime\<close> the value \<open>0\<close> has its message stored
  with the time of the clock, not with the value of the body.
\<close>

theorem addMessageToChatRoute_falsy_date_counterexample:
  "add_body sampleZeroDate
     = Some \<lparr>body_msg = Some ''hello'', body_msgFrom = Some ''alice'',
             body_msgDateTime = Some (JNum 0)\<rparr>
   \<and> status (fst (addMessageToChatRoute samplePopulate 77 sampleZeroDate sampleDb)) = 200
   \<and> MessageModel (snd (snd (addMessageToChatRoute samplePopulate 77 sampleZeroDate sampleDb)))
      = [\<lparr>msg = ''hello'', msgFrom = ''alice'', msgDateTime = JDate 77, msgType = ''direct'',
          msg_id = ''oid0''\<rparr>]
   \<and> JDate 77 \<noteq> JNum 0"
  by code_simp

theorem addMessageToChatRoute_stores_direct_message_witness:
  "(\<exists>doc. MessageModel (snd (snd (addMessageToChatRoute samplePopulate 77 sampleGivenDate
                                      sampleDb))) = MessageModel sampleDb @ [doc]
       \<and> msgType doc = ''direct'' \<and> msg doc = ''hello'' \<and> msgFrom doc = ''alice''
       \<and> msgDateTime doc = JStr ''2025-01-01T00:00:00.000Z'')
   \<and> (\<exists>doc. MessageModel (snd (snd (addMessageToChatRoute samplePopulate 77 sampleZeroDate
                                        sampleDb))) = MessageModel sampleDb @ [doc]
         \<and> msgDateTime doc = JDate 77)
   \<and> (\<exists>doc. MessageModel (snd (snd (addMessageToChatRoute samplePopulate 77 sampleAddMessage
                                        sampleDb))) = MessageModel sampleDb @ [doc]
         \<and> msgType doc = ''direct'' \<and> msg doc = ''  '' \<and> msgFrom doc = ''alice''
         \<and> msgDateTime doc = JDate 77)"
proof -
  have s: "status (fst (addMessageToChatRoute samplePopulate 77 sampleGivenDate sampleDb)) = 200"
    "status (fst (addMessageToChatRoute samplePopulate 77 sampleZeroDate sampleDb)) = 200"
    "status (fst (addMessageToChatRoute samplePopulate 77 sampleAddMessage sampleDb)) = 200"
    by code_simp+
  from s(1) addMessageToChatRoute_stores_direct_message
              [of samplePopulate 77 sampleGivenDate sampleDb]
  have "\<exists>doc. MessageModel (snd (snd (addMessageToChatRoute samplePopulate 77 sampleGivenDate
                                      sampleDb))) = MessageModel sampleDb @ [doc]
       \<and> msgType doc = ''direct'' \<and> msg doc = ''hello'' \<and> msgFrom doc = ''alice''
       \<and> msgDateTime doc = JStr ''2025-01-01T00:00:00.000Z''"
    by (auto simp: sampleGivenDate_def)
  moreover from s(2) addMessageToChatRoute_stores_direct_message
              [of samplePopulate 77 sampleZeroDate sampleDb]
  have "\<exists>doc. MessageModel (snd (snd (addMessageToChatRoute samplePopulate 77 sampleZeroDate
                                        sampleDb))) = MessageModel sampleDb @ [doc]
         \<and> msgDateTime doc = JDate 77"
    by (auto simp: sampleZeroDate_def)
  moreover from s(3) addMessageToChatRoute_stores_direct_message
              [of samplePopulate 77 sampleAddMessage sampleDb]
  have "\<exists>doc. MessageModel (snd (snd (addMessageToChatRoute samplePopulate 77 sampleAddMessage
                                        sampleDb))) = MessageModel sampleDb @ [doc]
         \<and> msgType doc = ''direct'' \<and> msg doc = ''  '' \<and> msgFrom doc = ''alice''
         \<and> msgDateTime doc = JDate 77"
    by (auto simp: sampleAddMessage_def)
  ultimately show ?thesis by blast
qed

text \<open>
  C6. The route answers 400 exactly when the body is missing, the text is missing or
  the empty string, the sender is missing, or the chat identifier is missing or empty;
  it then sends \<open>Invalid message request body\<close>, emits nothing and leaves the database as
  it was, no call made. A text that is not empty and all white space passes the
  validation, the answer is not 400, and in a database without faults the message is
  stored with that text.
\<close>

theorem addMessageToChatRoute_validation:
  "(status (fst (addMessageToChatRoute populateDocument now req d)) = 400 \<longleftrightarrow>
      (add_body req = None
       \<or> (\<exists>b. add_body req = Some b
              \<and> (body_msg b = None \<or> body_msg b = Some [] \<or> body_msgFrom b = None))
       \<or> add_chatId req = None \<or> add_chatId req = Some []))
   \<and> (status (fst (addMessageToChatRoute populateDocument now req d)) = 400 \<longrightarrow>
        addMessageToChatRoute populateDocument now req d =
          (\<lparr>status = 400, content = Text ''Invalid message request body''\<rparr>, [], d))
   \<and> (\<forall>b m f c. add_body req = Some b \<and> body_msg b = Some m \<and> m \<noteq> []
          \<and> (\<forall>x \<in> set m. isWhiteSpace x) \<and> body_msgFrom b = Some f
          \<and> add_chatId req = Some c \<and> c \<noteq> [] \<longrightarrow>
        isAddMessageRequestValid req
        \<and> status (fst (addMessageToChatRoute populateDocument now req d)) \<noteq> 400
        \<and> (faults d = [] \<longrightarrow>
             (\<exists>doc. MessageModel (snd (snd (addMessageToChatRoute populateDocument now req d)))
                      = MessageModel d @ [doc] \<and> msg doc = m)))"
proof -
  obtain res ems d' where r: "addMessageToChatRoute populateDocument now req d = (res, ems, d')"
    by (cases "addMessageToChatRoute populateDocument now req d")
  have st: "status res = 400 \<longleftrightarrow> \<not> isAddMessageRequestValid req"
    using r
    by (auto simp: addMessageToChatRoute_def Let_def
             split: if_splits prod.splits sum.splits outcome.splits)
  have inv: "\<not> isAddMessageRequestValid req \<longleftrightarrow>
      (add_body req = None
       \<or> (\<exists>b. add_body req = Some b
              \<and> (body_msg b = None \<or> body_msg b = Some [] \<or> body_msgFrom b = None))
       \<or> add_chatId req = None \<or> add_chatId req = Some [])"
    by (auto simp: isAddMessageRequestValid_def split: option.splits)
  have bad: "\<not> isAddMessageRequestValid req \<Longrightarrow>
      addMessageToChatRoute populateDocument now req d =
          (\<lparr>status = 400, content = Text ''Invalid message request body''\<rparr>, [], d)"
    by (simp add: addMessageToChatRoute_def)
  have stored: "\<exists>doc. MessageModel d' = MessageModel d @ [doc] \<and> msg doc = m"
    if "isAddMessageRequestValid req" "faults d = []" "add_body req = Some b" "body_msg b = Some m"
    for b m
  proof -
    from addMessageToChatRoute_messages[OF r] that(3,4)
    consider "MessageModel d' = MessageModel d" "status res \<noteq> 200"
      | doc where "MessageModel d' = MessageModel d @ [doc]" "msg doc = m"
      by auto
    then show ?thesis
    proof cases
      case 1
      obtain r1 d1 where cm: "createMessage (messageData now b) d = (r1, d1)"
        by (cases "createMessage (messageData now b) d")
      from createMessage_cases[OF cm] that(2) obtain doc where
          "r1 = Inr doc" "MessageModel d1 = MessageModel d @ [doc]"
        by auto
      moreover have "MessageModel d' = MessageModel d1"
        using r that(1,3) cm \<open>r1 = Inr doc\<close>
        by (auto simp: addMessageToChatRoute_def Let_def addMessageToChat_frame
               split: if_splits prod.splits sum.splits outcome.splits)
      ultimately show ?thesis using 1 by simp
    next
      case 2
      then show ?thesis by blast
    qed
  qed
  show ?thesis
    unfolding r using st inv bad stored r
    by (simp add: isAddMessageRequestValid_iff) blast
qed

theorem addMessageToChatRoute_validation_witness:
  "addMessageToChatRoute samplePopulate 77
       (sampleAddMessage\<lparr>add_body := Some \<lparr>body_msg = Some [], body_msgFrom = Some ''alice'',
                                             body_msgDateTime = None\<rparr>\<rparr>) sampleDb
     = (\<lparr>status = 400, content = Text ''Invalid message request body''\<rparr>, [], sampleDb)
   \<and> status (fst (addMessageToChatRoute samplePopulate 77 sampleAddMessage sampleDb)) \<noteq> 400
   \<and> (\<exists>doc. MessageModel (snd (snd (addMessageToChatRoute samplePopulate 77 sampleAddMessage
                                        sampleDb))) = MessageModel sampleDb @ [doc]
         \<and> msg doc = ''  '')"
  using addMessageToChatRoute_validation
          [of samplePopulate 77
              "sampleAddMessage\<lparr>add_body := Some \<lparr>body_msg = Some [],
                  body_msgFrom = Some ''alice'', body_msgDateTime = None\<rparr>\<rparr>" sampleDb]
        addMessageToChatRoute_validation [of samplePopulate 77 sampleAddMessage sampleDb]
  by (simp add: sampleAddMessage_def sampleDb_def isWhiteSpace_def)

section \<open>The create-chat route\<close>

text \<open>
  C5. The route answers 400 exactly when the body is missing, the participants are
  missing, not an array or an empty array, or the messages are missing or not an array;
  it then sends \<open>Invalid chat request body\<close>, emits nothing and leaves the database as it
  was, no call made. Otherwise the database is the one \<open>saveChat\<close> leaves for the body,
  and in a database without faults that is the old one with the new chat appended: its
  participants are those of the body, each replaced by the identifier of the user of
  that name where there is one, and it has one message for each message of the body.
\<close>

theorem createChatRoute_validation:
  "(status (fst (createChatRoute populateDocument req d)) = 400 \<longleftrightarrow>
      (create_body req = None
       \<or> (\<exists>b. create_body req = Some b
              \<and> (req_participants b = Undefined \<or> req_participants b = NotArray
                  \<or> req_participants b = Array []
                  \<or> req_messages b = Undefined \<or> req_messages b = NotArray))))
   \<and> (status (fst (createChatRoute populateDocument req d)) = 400 \<longrightarrow>
        createChatRoute populateDocument req d =
          (\<lparr>status = 400, content = Text ''Invalid chat request body''\<rparr>, [], d))
   \<and> (\<forall>ps ms. create_body req = Some \<lparr>req_participants = Array ps, req_messages = Array ms\<rparr>
          \<and> ps \<noteq> [] \<longrightarrow>
        snd (snd (createChatRoute populateDocument req d))
          = snd (saveChat \<lparr>payload_participants = ps, payload_messages = ms\<rparr> d)
        \<and> (faults d = [] \<longrightarrow>
             (\<exists>doc. ChatModel (snd (snd (createChatRoute populateDocument req d)))
                      = ChatModel d @ [doc]
                \<and> doc_participants doc =
                    map (\<lambda>p. case find (\<lambda>u. username u = p) (UserModel d) of
                                 Some u \<Rightarrow> user_id u | None \<Rightarrow> p) ps
                \<and> length (doc_messages doc) = length ms)))"
proof (intro conjI allI impI)
  show "status (fst (createChatRoute populateDocument req d)) = 400 \<longleftrightarrow>
      (create_body req = None
       \<or> (\<exists>b. create_body req = Some b
              \<and> (req_participants b = Undefined \<or> req_participants b = NotArray
                  \<or> req_participants b = Array []
                  \<or> req_messages b = Undefined \<or> req_messages b = NotArray)))"
    unfolding createChatRoute_status_400
  proof (cases "create_body req")
    case None
    then show "(\<not> isCreateChatRequestValid req) = (create_body req = None
       \<or> (\<exists>b. create_body req = Some b
              \<and> (req_participants b = Undefined \<or> req_participants b = NotArray
                  \<or> req_participants b = Array []
                  \<or> req_messages b = Undefined \<or> req_messages b = NotArray)))"
      by (simp add: isCreateChatRequestValid_def)
  next
    case (Some b)
    then show "(\<not> isCreateChatRequestValid req) = (create_body req = None
       \<or> (\<exists>b. create_body req = Some b
              \<and> (req_participants b = Undefined \<or> req_participants b = NotArray
                  \<or> req_participants b = Array []
                  \<or> req_messages b = Undefined \<or> req_messages b = NotArray)))"
      by (cases "req_participants b"; cases "req_messages b")
         (auto simp: isCreateChatRequestValid_def isArray_def elements_def)
  qed
next
  assume "status (fst (createChatRoute populateDocument req d)) = 400"
  then have "\<not> isCreateChatRequestValid req"
    by (simp add: createChatRoute_status_400)
  then show "createChatRoute populateDocument req d =
          (\<lparr>status = 400, content = Text ''Invalid chat request body''\<rparr>, [], d)"
    by (simp add: createChatRoute_def)
next
  fix ps ms
  assume b: "create_body req = Some \<lparr>req_participants = Array ps, req_messages = Array ms\<rparr>
          \<and> ps \<noteq> []"
  then have v: "isCreateChatRequestValid req"
    unfolding isCreateChatRequestValid_iff by blast
  have pl: "chatPayload \<lparr>req_participants = Array ps, req_messages = Array ms\<rparr>
      = \<lparr>payload_participants = ps, payload_messages = ms\<rparr>"
    by (simp add: chatPayload_def elements_def)
  show dbeq: "snd (snd (createChatRoute populateDocument req d))
          = snd (saveChat \<lparr>payload_participants = ps, payload_messages = ms\<rparr> d)"
    using createChatRoute_db[OF v, of _ populateDocument d] b pl by simp
  assume "faults d = []"
  from saveChat_no_fault[OF this, of "\<lparr>payload_participants = ps, payload_messages = ms\<rparr>"]
  show "\<exists>doc. ChatModel (snd (snd (createChatRoute populateDocument req d)))
                      = ChatModel d @ [doc]
                \<and> doc_participants doc =
                    map (\<lambda>p. case find (\<lambda>u. username u = p) (UserModel d) of
                                 Some u \<Rightarrow> user_id u | None \<Rightarrow> p) ps
                \<and> length (doc_messages doc) = length ms"
    unfolding dbeq by auto
qed

theorem createChatRoute_validation_witness:
  "createChatRoute samplePopulate
       \<lparr>create_body = Some \<lparr>req_participants = Array [], req_messages = Array []\<rparr>\<rparr> sampleDb
     = (\<lparr>status = 400, content = Text ''Invalid chat request body''\<rparr>, [], sampleDb)
   \<and> status (fst (createChatRoute samplePopulate sampleCreateChat sampleDb)) \<noteq> 400
   \<and> (\<exists>doc. ChatModel (snd (snd (createChatRoute samplePopulate sampleCreateChat sampleDb)))
               = ChatModel sampleDb @ [doc]
         \<and> doc_participants doc = [''a1'', ''507f1f77bcf86cd799439011''])"
proof -
  have db: "faults sampleDb = []" "UserModel sampleDb = [alice, bob]"
    by (simp_all add: sampleDb_def)
  have "createChatRoute samplePopulate
       \<lparr>create_body = Some \<lparr>req_participants = Array [], req_messages = Array []\<rparr>\<rparr> sampleDb
     = (\<lparr>status = 400, content = Text ''Invalid chat request body''\<rparr>, [], sampleDb)"
    using createChatRoute_validation
            [of samplePopulate
                "\<lparr>create_body = Some \<lparr>req_participants = Array [], req_messages = Array []\<rparr>\<rparr>"
                sampleDb]
    by simp
  moreover have "status (fst (createChatRoute samplePopulate sampleCreateChat sampleDb)) \<noteq> 400
     \<and> (\<exists>doc. ChatModel (snd (snd (createChatRoute samplePopulate sampleCreateChat sampleDb)))
               = ChatModel sampleDb @ [doc]
         \<and> doc_participants doc = [''a1'', ''507f1f77bcf86cd799439011''])"
    using createChatRoute_validation [of samplePopulate sampleCreateChat sampleDb] db
    by (auto simp: sampleCreateChat_def alice_def bob_def)
  ultimately show ?thesis by blast
qed


section \<open>Propagation of chat updates\<close>









section \<open>Participants\<close>

lemma UserModel_findById_cases:
  assumes "UserModel_findById i d = (r, d')"
  shows "UserModel d' = UserModel d" and "MessageModel d' = MessageModel d"
    and "ChatModel d' = ChatModel d" and "nextId d' = nextId d" and "faults d' = tl (faults d)"
    and "r = Returns (Some u) \<Longrightarrow> u \<in> set (UserModel d) \<and> user_id u = i"
  using assms
  by (auto simp: UserModel_findById_def db_call_def
           split: list.splits fault.splits dest: find_Some_holds)

lemma update_first_fixed:
  "find P xs = Some x \<Longrightarrow> f x = x \<Longrightarrow> update_first P f xs = xs"
  by (induction xs) (auto split: if_splits)

lemma map_update_first:
  "(\<And>x. g (f x) = g x) \<Longrightarrow> map g (update_first P f xs) = map g xs"
  by (induction xs) auto

lemma find_update_first:
  "(\<And>x. P x \<Longrightarrow> P (f x)) \<Longrightarrow> find P (update_first P f xs) = map_option f (find P xs)"
  by (induction xs) auto

lemma update_first_idem:
  "(\<And>x. P x \<Longrightarrow> P (f x)) \<Longrightarrow> (\<And>x. f (f x) = f x) \<Longrightarrow>
     update_first P f (update_first P f xs) = update_first P f xs"
  by (induction xs) auto

lemma addToSet_participant_facts:
  "doc_id (addToSet_participant userId c) = doc_id c"
  "doc_messages (addToSet_participant userId c) = doc_messages c"
  "addToSet_participant userId (addToSet_participant userId c) = addToSet_participant userId c"
  "userId \<in> set (doc_participants c) \<Longrightarrow> addToSet_participant userId c = c"
  by (simp_all add: addToSet_participant_def)

lemma ChatModel_findByIdAndUpdate_cases:
  assumes "ChatModel_findByIdAndUpdate i upd d = (r, d')"
  shows "ChatModel d' = ChatModel d
         \<or> (\<exists>c0 c. find (\<lambda>c. doc_id c = i) (ChatModel d) = Some c0 \<and> r = Returns (Some c)
               \<and> chat_id c = Some (doc_id (upd c0))
               \<and> participants c = doc_participants (upd c0)
               \<and> messages c = List.map_filter (\<lambda>i. find (\<lambda>m. msg_id m = i) (MessageModel d))
                                  (doc_messages (upd c0))
               \<and> ChatModel d' = update_first (\<lambda>c. doc_id c = i) upd (ChatModel d))"
    and "r = Returns (Some c) \<Longrightarrow>
           (\<exists>c0. find (\<lambda>c. doc_id c = i) (ChatModel d) = Some c0
               \<and> chat_id c = Some (doc_id (upd c0))
               \<and> participants c = doc_participants (upd c0)
               \<and> messages c = List.map_filter (\<lambda>i. find (\<lambda>m. msg_id m = i) (MessageModel d))
                                  (doc_messages (upd c0))
               \<and> ChatModel d' = update_first (\<lambda>c. doc_id c = i) upd (ChatModel d))"
  using assms
  by (auto simp: ChatModel_findByIdAndUpdate_def db_call_def populate_def
           split: list.splits fault.splits option.splits)

lemma addParticipantToChat_frame:
  assumes "addParticipantToChat chatId userId d = (r, d')"
  shows "UserModel d' = UserModel d" and "MessageModel d' = MessageModel d"
    and "nextId d' = nextId d"
    and "ChatModel d' = ChatModel d
         \<or> ChatModel d' = update_first (\<lambda>c. doc_id c = chatId) (addToSet_participant userId)
                             (ChatModel d)"
proof -
  obtain r1 d1 where u: "UserModel_findById userId d = (r1, d1)"
    by (cases "UserModel_findById userId d")
  note f1 = UserModel_findById_cases(1-4)[OF u]
  obtain r2 d2 where c: "ChatModel_findByIdAndUpdate chatId (addToSet_participant userId) d1 = (r2, d2)"
    by (cases "ChatModel_findByIdAndUpdate chatId (addToSet_participant userId) d1")
  note f2 = ChatModel_findByIdAndUpdate_frame[OF c] ChatModel_findByIdAndUpdate_cases(1)[OF c]
  have "d' = d1 \<or> d' = d2"
    using assms u c
    by (auto simp: addParticipantToChat_def split: outcome.splits option.splits)
  then show "UserModel d' = UserModel d" and "MessageModel d' = MessageModel d"
    and "nextId d' = nextId d"
    and "ChatModel d' = ChatModel d
         \<or> ChatModel d' = update_first (\<lambda>c. doc_id c = chatId) (addToSet_participant userId)
                             (ChatModel d)"
    using f1 f2 by auto
qed

lemma addParticipantToChat_Inr:
  assumes "addParticipantToChat chatId userId d = (Inr c, d')"
  shows "\<exists>u \<in> set (UserModel d). user_id u = userId"
    and "\<exists>c0. find (\<lambda>c. doc_id c = chatId) (ChatModel d) = Some c0
           \<and> chat_id c = Some chatId
           \<and> participants c = doc_participants (addToSet_participant userId c0)
           \<and> messages c = List.map_filter (\<lambda>i. find (\<lambda>m. msg_id m = i) (MessageModel d))
                              (doc_messages c0)
           \<and> ChatModel d' = update_first (\<lambda>c. doc_id c = chatId) (addToSet_participant userId)
                               (ChatModel d)"
proof -
  from assms obtain usr d1 where u: "UserModel_findById userId d = (Returns (Some usr), d1)"
      and c: "ChatModel_findByIdAndUpdate chatId (addToSet_participant userId) d1
                = (Returns (Some c), d')"
    by (auto simp: addParticipantToChat_def split: prod.splits outcome.splits option.splits)
  from UserModel_findById_cases(6)[OF u] show "\<exists>u \<in> set (UserModel d). user_id u = userId"
    by auto
  from ChatModel_findByIdAndUpdate_cases(2)[OF c] UserModel_findById_cases(2,3)[OF u]
  show "\<exists>c0. find (\<lambda>c. doc_id c = chatId) (ChatModel d) = Some c0
           \<and> chat_id c = Some chatId
           \<and> participants c = doc_participants (addToSet_participant userId c0)
           \<and> messages c = List.map_filter (\<lambda>i. find (\<lambda>m. msg_id m = i) (MessageModel d))
                              (doc_messages c0)
           \<and> ChatModel d' = update_first (\<lambda>c. doc_id c = chatId) (addToSet_participant userId)
                               (ChatModel d)"
    by (auto simp: addToSet_participant_facts dest: find_Some_holds)
qed

lemma addParticipantToChat_unknown_user:
  assumes "\<forall>u \<in> set (UserModel d). user_id u \<noteq> userId"
  shows "\<exists>e d'. addParticipantToChat chatId userId d = (Inl e, d') \<and> ChatModel d' = ChatModel d
           \<and> UserModel d' = UserModel d \<and> MessageModel d' = MessageModel d"
proof -
  obtain r1 d1 where u: "UserModel_findById userId d = (r1, d1)"
    by (cases "UserModel_findById userId d")
  have "\<nexists>usr. r1 = Returns (Some usr)"
    using UserModel_findById_cases(6)[OF u] assms by blast
  then have "\<exists>e. addParticipantToChat chatId userId d = (Inl e, d1)"
    using u by (auto simp: addParticipantToChat_def split: outcome.splits option.splits)
  with UserModel_findById_cases(1-3)[OF u] show ?thesis by auto
qed


lemma addParticipantToChat_twice:
  assumes "addParticipantToChat chatId userId d = (Inr c, d1)"
  shows "ChatModel (snd (addParticipantToChat chatId userId d1)) = ChatModel d1"
    and "addParticipantToChat chatId userId d1 = (Inr c2, d2) \<Longrightarrow> c2 = c"
proof -
  let ?P = "\<lambda>c. doc_id c = chatId" and ?f = "addToSet_participant userId"
  from addParticipantToChat_Inr(2)[OF assms] obtain c0 where
      c0: "find ?P (ChatModel d) = Some c0" and ci: "chat_id c = Some chatId"
      and cp: "participants c = doc_participants (?f c0)"
      and cm: "messages c = List.map_filter (\<lambda>i. find (\<lambda>m. msg_id m = i) (MessageModel d))
                              (doc_messages c0)"
      and d1: "ChatModel d1 = update_first ?P ?f (ChatModel d)"
    by blast
  have idem: "update_first ?P ?f (ChatModel d1) = ChatModel d1"
    unfolding d1 by (rule update_first_idem) (simp_all add: addToSet_participant_facts)
  obtain r2 d2' where s: "addParticipantToChat chatId userId d1 = (r2, d2')"
    by (cases "addParticipantToChat chatId userId d1")
  from addParticipantToChat_frame(4)[OF s] idem
  show "ChatModel (snd (addParticipantToChat chatId userId d1)) = ChatModel d1"
    by (auto simp: s)
  assume s2: "addParticipantToChat chatId userId d1 = (Inr c2, d2)"
  have f1: "find ?P (ChatModel d1) = Some (?f c0)"
    unfolding d1 using c0 by (simp add: find_update_first addToSet_participant_facts)
  have m1: "MessageModel d1 = MessageModel d"
    by (rule addParticipantToChat_frame(2)[OF assms])
  from addParticipantToChat_Inr(2)[OF s2] f1 m1
  have "chat_id c2 = Some chatId" "participants c2 = doc_participants (?f c0)"
    "messages c2 = List.map_filter (\<lambda>i. find (\<lambda>m. msg_id m = i) (MessageModel d))
                              (doc_messages c0)"
    by (auto simp: addToSet_participant_facts)
  with ci cp cm show "c2 = c"
    by simp
qed

lemma addParticipantToChat_error_no_fault:
  assumes "faults d = []" and "addParticipantToChat chatId userId d = (Inl e, d')"
  shows "d' = d"
  using assms
  by (auto simp: addParticipantToChat_def UserModel_findById_def ChatModel_findByIdAndUpdate_def
                 db_call_def
           split: option.splits)

text \<open>
  C9. After a successful call of \<open>addParticipantToChat\<close>, a second call with the same chat
  and user leaves the chats and the messages as the first left them, and when it
  succeeds it returns the same chat; in a database without faults two calls leave the
  chats as one call does, whether the first succeeds or not. Adding a user who is
  already a participant of the chat leaves the chats unchanged. In every case, also of
  failure, the message lists of all chats and the collection of messages are unchanged.
\<close>

theorem addParticipantToChat_idempotent:
  "(\<forall>c d1. addParticipantToChat chatId userId d = (Inr c, d1) \<longrightarrow>
      ChatModel (snd (addParticipantToChat chatId userId d1)) = ChatModel d1
      \<and> MessageModel (snd (addParticipantToChat chatId userId d1)) = MessageModel d1
      \<and> (\<forall>c2 d2. addParticipantToChat chatId userId d1 = (Inr c2, d2) \<longrightarrow> c2 = c))
   \<and> (faults d = [] \<longrightarrow>
        ChatModel (snd (addParticipantToChat chatId userId
                          (snd (addParticipantToChat chatId userId d))))
          = ChatModel (snd (addParticipantToChat chatId userId d)))
   \<and> (\<forall>c0. find (\<lambda>c. doc_id c = chatId) (ChatModel d) = Some c0
          \<and> userId \<in> set (doc_participants c0) \<longrightarrow>
        ChatModel (snd (addParticipantToChat chatId userId d)) = ChatModel d)
   \<and> map doc_messages (ChatModel (snd (addParticipantToChat chatId userId d)))
        = map doc_messages (ChatModel d)
   \<and> MessageModel (snd (addParticipantToChat chatId userId d)) = MessageModel d"
proof -
  obtain r d' where s: "addParticipantToChat chatId userId d = (r, d')"
    by (cases "addParticipantToChat chatId userId d")
  note fr = addParticipantToChat_frame[OF s]
  have same: "ChatModel d' = ChatModel d"
    if "find (\<lambda>c. doc_id c = chatId) (ChatModel d) = Some c0" "userId \<in> set (doc_participants c0)"
    for c0
    using fr(4) update_first_fixed[OF that(1), of "addToSet_participant userId"] that(2)
    by (auto simp: addToSet_participant_facts)
  have msgs: "map doc_messages (ChatModel d') = map doc_messages (ChatModel d)"
    using fr(4) by (auto simp: map_update_first addToSet_participant_facts)
  have twice: "MessageModel (snd (addParticipantToChat chatId userId d1)) = MessageModel d1" for d1
    using addParticipantToChat_frame(2)[of chatId userId d1] 
    by (cases "addParticipantToChat chatId userId d1") simp
  have first: "ChatModel (snd (addParticipantToChat chatId userId d1)) = ChatModel d1
      \<and> (\<forall>c2 d2. addParticipantToChat chatId userId d1 = (Inr c2, d2) \<longrightarrow> c2 = c)"
    if "addParticipantToChat chatId userId d = (Inr c, d1)" for c d1
    using addParticipantToChat_twice[OF that] by blast
  have nofault: "ChatModel (snd (addParticipantToChat chatId userId d')) = ChatModel d'"
    if "faults d = []"
  proof (cases r)
    case (Inl e)
    with s that have "d' = d" by (simp add: addParticipantToChat_error_no_fault)
    then show ?thesis by (simp add: s)
  next
    case (Inr c)
    with s first show ?thesis by simp
  qed
  show ?thesis
    using same msgs fr(2) twice first nofault
    by (simp add: s)
qed

theorem addParticipantToChat_idempotent_witness:
  "ChatModel (snd (addParticipantToChat ''c1'' ''b2''
                     (snd (addParticipantToChat ''c1'' ''b2'' sampleDb))))
     = ChatModel (snd (addParticipantToChat ''c1'' ''b2'' sampleDb))
   \<and> ChatModel (snd (addParticipantToChat ''c1'' ''a1'' sampleDb)) = ChatModel sampleDb"
proof -
  have a: "addParticipantToChat ''c1'' ''b2'' sampleDb
      = (Inr \<lparr>chat_id = Some ''c1'', participants = [''a1'', ''b2''], messages = []\<rparr>,
         snd (addParticipantToChat ''c1'' ''b2'' sampleDb))"
    by code_simp
  have f: "find (\<lambda>c. doc_id c = ''c1'') (ChatModel sampleDb)
      = Some \<lparr>doc_id = ''c1'', doc_participants = [''a1''], doc_messages = []\<rparr>"
    by (simp add: sampleDb_def)
  from addParticipantToChat_idempotent[of "''c1''" "''b2''" sampleDb] a
  have "ChatModel (snd (addParticipantToChat ''c1'' ''b2''
                     (snd (addParticipantToChat ''c1'' ''b2'' sampleDb))))
     = ChatModel (snd (addParticipantToChat ''c1'' ''b2'' sampleDb))"
    by blast
  moreover from addParticipantToChat_idempotent[of "''c1''" "''a1''" sampleDb] f
  have "ChatModel (snd (addParticipantToChat ''c1'' ''a1'' sampleDb)) = ChatModel sampleDb"
    by simp
  ultimately show ?thesis by blast
qed

lemma UserModel_findOne_exact:
  assumes "UserModel_findOne name d = (Returns r, d')" and "DbNull \<notin> set (faults d)"
  shows "r = find (\<lambda>u. username u = name) (UserModel d)" and "DbNull \<notin> set (faults d')"
  using assms
  by (auto simp: UserModel_findOne_def db_call_def split: list.splits fault.splits)

lemma resolveParticipants_exact:
  "resolveParticipants ps d = (Returns ids, d') \<Longrightarrow> DbNull \<notin> set (faults d) \<Longrightarrow>
     ids = map (\<lambda>p. case find (\<lambda>u. username u = p) (UserModel d) of
                       Some u \<Rightarrow> user_id u | None \<Rightarrow> p) ps"
proof (induction ps arbitrary: d ids d')
  case Nil
  then show ?case by simp
next
  case (Cons p ps)
  obtain r1 d1 where f: "UserModel_findOne p d = (r1, d1)"
    by (cases "UserModel_findOne p d")
  from Cons.prems(1) f obtain usr where r1: "r1 = Returns usr"
    by (cases r1) auto
  obtain r2 d2 where rest: "resolveParticipants ps d1 = (r2, d2)"
    by (cases "resolveParticipants ps d1")
  from Cons.prems(1) f r1 rest obtain ids' where r2: "r2 = Returns ids'"
      and ids: "ids = (case usr of Some u \<Rightarrow> user_id u | None \<Rightarrow> p) # ids'"
    by (cases r2) auto
  note ex = UserModel_findOne_exact[OF f[unfolded r1] Cons.prems(2)]
  have u1: "UserModel d1 = UserModel d"
    by (rule UserModel_findOne_cases(1)[OF f])
  have "ids' = map (\<lambda>p. case find (\<lambda>u. username u = p) (UserModel d1) of
                       Some u \<Rightarrow> user_id u | None \<Rightarrow> p) ps"
    using Cons.IH[OF rest[unfolded r2] ex(2)] .
  with ids ex(1) u1 show ?case by simp
qed

lemma saveChat_participants_exact:
  assumes "saveChat payload d = (Inr c, d')" and "DbNull \<notin> set (faults d)"
    and "ChatModel d' = ChatModel d @ [doc]"
  shows "doc_participants doc =
           map (\<lambda>p. case find (\<lambda>u. username u = p) (UserModel d) of
                        Some u \<Rightarrow> user_id u | None \<Rightarrow> p) (payload_participants payload)"
proof -
  from assms(1) obtain pids d1 mids d2 doc' d3 where
      rp: "resolveParticipants (payload_participants payload) d = (Returns pids, d1)"
      and cm: "createMessages (payload_messages payload) d1 = (Returns mids, d2)"
      and cc: "ChatModel_create pids mids d2 = (Returns (Some doc'), d3)"
      and fb: "ChatModel_findById (doc_id doc') d3 = (Returns (Some c), d')"
    unfolding saveChat_def saveChat_try_def
    by (auto split: prod.splits outcome.splits option.splits)
  have "ChatModel d' = ChatModel d @ [doc']"
    using resolveParticipants_frame[OF rp] createMessages_frame[OF cm]
      ChatModel_create_cases(2)[OF cc] ChatModel_findById_cases(1)[OF fb]
    by simp
  with assms(3) have "doc = doc'" by simp
  moreover have "doc_participants doc' = pids"
    using ChatModel_create_cases(1)[OF cc] by simp
  ultimately show ?thesis
    using resolveParticipants_exact[OF rp assms(2)] by simp
qed

text \<open>
  C2, as the code has it. The chat that \<open>saveChat\<close> stores has, position by position, for
  each participant of the payload either the identifier of a user of that name or that
  participant unchanged: when no lookup resolves to \<open>null\<close> by a fault, it has the
  identifier of the first user of that name where there is one, and the participant as
  given, whether or not it names a user, where there is none. The chat returned is the
  stored one, with these participants, when the identifiers still to be drawn are not
  in use. \<open>addParticipantToChat\<close> returns an error and leaves all three collections
  unchanged when no user has the given identifier; when it succeeds, a user with that
  identifier exists and the participants returned are those the chat had, with the
  identifier added at the end unless it was among them.
\<close>

theorem participants_of_produced_chats:
  "(\<forall>c d'. saveChat payload d = (Inr c, d') \<longrightarrow>
      (\<exists>doc. ChatModel d' = ChatModel d @ [doc] \<and> UserModel d' = UserModel d
         \<and> list_all2 (\<lambda>p i. i = p \<or> (\<exists>u \<in> set (UserModel d'). username u = p \<and> user_id u = i))
              (payload_participants payload) (doc_participants doc)
         \<and> (DbNull \<notin> set (faults d) \<longrightarrow>
               doc_participants doc =
                 map (\<lambda>p. case find (\<lambda>u. username u = p) (UserModel d) of
                              Some u \<Rightarrow> user_id u | None \<Rightarrow> p) (payload_participants payload))
         \<and> ((\<forall>k \<ge> nextId d. newObjectId k \<notin> doc_id ` set (ChatModel d)) \<longrightarrow>
               chat_id c = Some (doc_id doc) \<and> participants c = doc_participants doc)))
   \<and> ((\<forall>u \<in> set (UserModel d). user_id u \<noteq> userId) \<longrightarrow>
        (\<exists>e d'. addParticipantToChat chatId userId d = (Inl e, d') \<and> ChatModel d' = ChatModel d
           \<and> UserModel d' = UserModel d \<and> MessageModel d' = MessageModel d))
   \<and> (\<forall>c d'. addParticipantToChat chatId userId d = (Inr c, d') \<longrightarrow>
        (\<exists>u \<in> set (UserModel d'). user_id u = userId)
        \<and> (\<exists>c0. find (\<lambda>c. doc_id c = chatId) (ChatModel d) = Some c0
              \<and> participants c = (if userId \<in> set (doc_participants c0) then doc_participants c0
                                   else doc_participants c0 @ [userId])))"
proof (intro conjI allI impI)
  fix c d'
  assume s: "saveChat payload d = (Inr c, d')"
  from saveChat_Inr[OF s] obtain doc k where
      f: "ChatModel d' = ChatModel d @ [doc]" "UserModel d' = UserModel d" "nextId d \<le> k"
         "doc_id doc = newObjectId k"
         "list_all2 (\<lambda>p i. i = p \<or> (\<exists>u \<in> set (UserModel d). username u = p \<and> user_id u = i))
                (payload_participants payload) (doc_participants doc)"
         "newObjectId k \<notin> doc_id ` set (ChatModel d) \<longrightarrow>
            chat_id c = Some (doc_id doc) \<and> participants c = doc_participants doc"
    by blast
  have ex: "DbNull \<notin> set (faults d) \<longrightarrow>
               doc_participants doc =
                 map (\<lambda>p. case find (\<lambda>u. username u = p) (UserModel d) of
                              Some u \<Rightarrow> user_id u | None \<Rightarrow> p) (payload_participants payload)"
    using saveChat_participants_exact[OF s _ f(1)] by blast
  show "\<exists>doc. ChatModel d' = ChatModel d @ [doc] \<and> UserModel d' = UserModel d
         \<and> list_all2 (\<lambda>p i. i = p \<or> (\<exists>u \<in> set (UserModel d'). username u = p \<and> user_id u = i))
              (payload_participants payload) (doc_participants doc)
         \<and> (DbNull \<notin> set (faults d) \<longrightarrow>
               doc_participants doc =
                 map (\<lambda>p. case find (\<lambda>u. username u = p) (UserModel d) of
                              Some u \<Rightarrow> user_id u | None \<Rightarrow> p) (payload_participants payload))
         \<and> ((\<forall>k \<ge> nextId d. newObjectId k \<notin> doc_id ` set (ChatModel d)) \<longrightarrow>
               chat_id c = Some (doc_id doc) \<and> participants c = doc_participants doc)"
    using f ex by (intro exI[of _ doc]) auto
next
  assume "\<forall>u \<in> set (UserModel d). user_id u \<noteq> userId"
  then show "\<exists>e d'. addParticipantToChat chatId userId d = (Inl e, d') \<and> ChatModel d' = ChatModel d
           \<and> UserModel d' = UserModel d \<and> MessageModel d' = MessageModel d"
    by (rule addParticipantToChat_unknown_user)
next
  fix c d'
  assume s: "addParticipantToChat chatId userId d = (Inr c, d')"
  from addParticipantToChat_Inr(1)[OF s] addParticipantToChat_frame(1)[OF s]
  show "\<exists>u \<in> set (UserModel d'). user_id u = userId"
    by simp
  from addParticipantToChat_Inr(2)[OF s]
  show "\<exists>c0. find (\<lambda>c. doc_id c = chatId) (ChatModel d) = Some c0
              \<and> participants c = (if userId \<in> set (doc_participants c0) then doc_participants c0
                                   else doc_participants c0 @ [userId])"
    by (auto simp: addToSet_participant_def)
qed

text \<open>
  C2 as stated fails: \<open>saveChat\<close> keeps a participant that names no user. On the sample
  database the chat produced has the participant \<open>507f1f77bcf86cd799439011\<close>, which is
  the identifier of no user.
\<close>

theorem participants_reference_users_counterexample:
  "fst (saveChat samplePayload sampleDb) = Inr sampleSavedChat
   \<and> ''507f1f77bcf86cd799439011'' \<in> set (participants sampleSavedChat)
   \<and> ''507f1f77bcf86cd799439011''
        \<notin> set (map user_id (UserModel (snd (saveChat samplePayload sampleDb))))"
  by code_simp

lemma newObjectId_not_c1: "newObjectId k \<noteq> ''c1''"
  by (simp add: newObjectId_def)

theorem participants_of_produced_chats_witness:
  "(\<exists>doc. ChatModel (snd (saveChat samplePayload sampleDb)) = ChatModel sampleDb @ [doc]
      \<and> doc_participants doc = [''a1'', ''507f1f77bcf86cd799439011'']
      \<and> participants sampleSavedChat = doc_participants doc)
   \<and> (\<exists>e d'. addParticipantToChat ''c1'' ''zz'' sampleDb = (Inl e, d')
         \<and> ChatModel d' = ChatModel sampleDb)
   \<and> (\<exists>c0. find (\<lambda>c. doc_id c = ''c1'') (ChatModel sampleDb) = Some c0
         \<and> participants \<lparr>chat_id = Some ''c1'', participants = [''a1'', ''b2''], messages = []\<rparr>
             = (if ''b2'' \<in> set (doc_participants c0) then doc_participants c0
                else doc_participants c0 @ [''b2'']))"
proof -
  have s: "saveChat samplePayload sampleDb
      = (Inr sampleSavedChat, snd (saveChat samplePayload sampleDb))"
    by code_simp
  have fresh: "\<forall>k \<ge> nextId sampleDb. newObjectId k \<notin> doc_id ` set (ChatModel sampleDb)"
    by (simp add: sampleDb_def newObjectId_not_c1)
  have nf: "DbNull \<notin> set (faults sampleDb)"
    by (simp add: sampleDb_def)
  have res: "map (\<lambda>p. case find (\<lambda>u. username u = p) (UserModel sampleDb) of
                        Some u \<Rightarrow> user_id u | None \<Rightarrow> p) (payload_participants samplePayload)
      = [''a1'', ''507f1f77bcf86cd799439011'']"
    by (simp add: sampleDb_def samplePayload_def alice_def bob_def)
  have u: "\<forall>u \<in> set (UserModel sampleDb). user_id u \<noteq> ''zz''"
    by (simp add: sampleDb_def alice_def bob_def)
  have a: "addParticipantToChat ''c1'' ''b2'' sampleDb
      = (Inr \<lparr>chat_id = Some ''c1'', participants = [''a1'', ''b2''], messages = []\<rparr>,
         snd (addParticipantToChat ''c1'' ''b2'' sampleDb))"
    by code_simp
  note t1 = participants_of_produced_chats[of samplePayload sampleDb "''zz''" "''c1''"]
  note t2 = participants_of_produced_chats[of samplePayload sampleDb "''b2''" "''c1''"]
  from t1[THEN conjunct1, rule_format, OF s] fresh nf res
  have "\<exists>doc. ChatModel (snd (saveChat samplePayload sampleDb)) = ChatModel sampleDb @ [doc]
      \<and> doc_participants doc = [''a1'', ''507f1f77bcf86cd799439011'']
      \<and> participants sampleSavedChat = doc_participants doc"
    by auto
  moreover from t1[THEN conjunct2, THEN conjunct1] u
  have "\<exists>e d'. addParticipantToChat ''c1'' ''zz'' sampleDb = (Inl e, d')
         \<and> ChatModel d' = ChatModel sampleDb"
    by blast
  moreover from t2[THEN conjunct2, THEN conjunct2, rule_format, OF a]
  have "\<exists>c0. find (\<lambda>c. doc_id c = ''c1'') (ChatModel sampleDb) = Some c0
         \<and> participants \<lparr>chat_id = Some ''c1'', participants = [''a1'', ''b2''], messages = []\<rparr>
             = (if ''b2'' \<in> set (doc_participants c0) then doc_participants c0
                else doc_participants c0 @ [''b2''])"
    by blast
  ultimately show ?thesis by blast
qed

section \<open>Chats by participants\<close>

lemma matching_users_fewer:
  assumes "distinct (map username us)" and "n \<in> set p" and "n \<notin> username ` set us"
  shows "length (filter (\<lambda>u. username u \<in> set p) us) < length p"
proof -
  let ?F = "filter (\<lambda>u. username u \<in> set p) us"
  have "distinct (map username ?F)"
    using assms(1) by (rule distinct_map_filter)
  then have "length ?F = card (username ` set ?F)"
    by (metis distinct_card length_map set_map)
  also have "username ` set ?F \<subseteq> set p - {n}"
    using assms(3) by auto
  then have "card (username ` set ?F) \<le> card (set p - {n})"
    by (simp add: card_mono)
  also have "card (set p - {n}) < card (set p)"
    using assms(2) by (intro card_Diff1_less) simp_all
  also have "card (set p) \<le> length p"
    by (rule card_length)
  finally show ?thesis .
qed

lemma UserModel_find_in_cases:
  assumes "UserModel_find_in p d = (r, d')"
  shows "UserModel d' = UserModel d" and "MessageModel d' = MessageModel d"
    and "ChatModel d' = ChatModel d" and "nextId d' = nextId d"
    and "r = Returns (Some us) \<Longrightarrow> us = filter (\<lambda>u. username u \<in> set p) (UserModel d)"
  using assms
  by (auto simp: UserModel_find_in_def db_call_def split: list.splits fault.splits)

lemma ChatModel_find_all_cases:
  assumes "ChatModel_find_all ids d = (r, d')"
  shows "UserModel d' = UserModel d" and "MessageModel d' = MessageModel d"
    and "ChatModel d' = ChatModel d" and "nextId d' = nextId d"
    and "r = Returns (Some cs) \<Longrightarrow>
           cs = map (populate d')
                  (filter (\<lambda>c. ids \<noteq> [] \<and> list_all (\<lambda>i. i \<in> set (doc_participants c)) ids)
                     (ChatModel d))"
  using assms
  by (auto simp: ChatModel_find_all_def db_call_def populate_def split: list.splits fault.splits)

lemma getChatsByParticipants_cases:
  assumes "getChatsByParticipants p d = (cs, d')"
  shows "UserModel d' = UserModel d \<and> MessageModel d' = MessageModel d
         \<and> ChatModel d' = ChatModel d \<and> nextId d' = nextId d"
    and "cs = []
         \<or> (length (filter (\<lambda>u. username u \<in> set p) (UserModel d)) = length p
            \<and> (\<exists>d1. ChatModel_find_all
                       (map user_id (filter (\<lambda>u. username u \<in> set p) (UserModel d))) d1
                     = (Returns (Some cs), d')
                  \<and> ChatModel d1 = ChatModel d))"
proof -
  obtain r1 d1 where u: "UserModel_find_in p d = (r1, d1)"
    by (cases "UserModel_find_in p d")
  note f1 = UserModel_find_in_cases[OF u]
  show "UserModel d' = UserModel d \<and> MessageModel d' = MessageModel d
         \<and> ChatModel d' = ChatModel d \<and> nextId d' = nextId d"
    using assms u f1(1-4)
    by (auto simp: getChatsByParticipants_def Let_def ChatModel_find_all_cases
             split: outcome.splits option.splits if_splits prod.splits)
  show "cs = []
         \<or> (length (filter (\<lambda>u. username u \<in> set p) (UserModel d)) = length p
            \<and> (\<exists>d1. ChatModel_find_all
                       (map user_id (filter (\<lambda>u. username u \<in> set p) (UserModel d))) d1
                     = (Returns (Some cs), d')
                  \<and> ChatModel d1 = ChatModel d))"
    using assms u f1(3,5)
    by (auto simp: getChatsByParticipants_def Let_def
             split: outcome.splits option.splits if_splits prod.splits)
qed

text \<open>
  C8. \<open>getChatsByParticipants\<close> returns an array of chats whatever happens (its result has
  no error alternative) and only reads the database. Usernames being unique among the
  users, it returns the empty array when some username of the list is the name of no
  user. It returns the empty array when no chat has all the users of the list among its
  participants, and when either database call throws.
\<close>

theorem getChatsByParticipants_empty:
  "(distinct (map username (UserModel d)) \<and> (\<exists>n \<in> set p. n \<notin> username ` set (UserModel d))
      \<longrightarrow> fst (getChatsByParticipants p d) = [])
   \<and> ((\<forall>c \<in> set (ChatModel d). \<exists>u \<in> set (UserModel d).
          username u \<in> set p \<and> user_id u \<notin> set (doc_participants c))
      \<longrightarrow> fst (getChatsByParticipants p d) = [])
   \<and> ((\<exists>e d1. UserModel_find_in p d = (Throws e, d1)) \<longrightarrow> fst (getChatsByParticipants p d) = [])
   \<and> ((\<exists>us d1 e d2. UserModel_find_in p d = (Returns (Some us), d1)
          \<and> ChatModel_find_all (map user_id us) d1 = (Throws e, d2))
      \<longrightarrow> fst (getChatsByParticipants p d) = [])
   \<and> UserModel (snd (getChatsByParticipants p d)) = UserModel d
   \<and> MessageModel (snd (getChatsByParticipants p d)) = MessageModel d
   \<and> ChatModel (snd (getChatsByParticipants p d)) = ChatModel d"
proof -
  obtain cs d' where g: "getChatsByParticipants p d = (cs, d')"
    by (cases "getChatsByParticipants p d")
  note c = getChatsByParticipants_cases[OF g]
  have a: "cs = []"
    if "distinct (map username (UserModel d))" "n \<in> set p" "n \<notin> username ` set (UserModel d)"
    for n
    using c(2) matching_users_fewer[OF that] by auto
  have b: "cs = []"
    if nm: "\<forall>c \<in> set (ChatModel d). \<exists>u \<in> set (UserModel d).
          username u \<in> set p \<and> user_id u \<notin> set (doc_participants c)"
  proof (rule ccontr)
    assume ne: "cs \<noteq> []"
    let ?ids = "map user_id (filter (\<lambda>u. username u \<in> set p) (UserModel d))"
    from c(2) ne obtain d1 where fa: "ChatModel_find_all ?ids d1 = (Returns (Some cs), d')"
        and cd: "ChatModel d1 = ChatModel d"
      by blast
    have "filter (\<lambda>c. ?ids \<noteq> [] \<and> list_all (\<lambda>i. i \<in> set (doc_participants c)) ?ids)
            (ChatModel d) = []"
      using nm by (auto simp: filter_empty_conv list_all_iff)
    with ChatModel_find_all_cases(5)[OF fa refl] cd ne show False
      by simp
  qed
  have t1: "cs = []" if "UserModel_find_in p d = (Throws e, d1)" for e d1
    using g that by (simp add: getChatsByParticipants_def)
  have t2: "cs = []"
    if "UserModel_find_in p d = (Returns (Some us), d1)"
       "ChatModel_find_all (map user_id us) d1 = (Throws e, d2)" for us d1 e d2
    using g that by (simp add: getChatsByParticipants_def Let_def split: if_splits)
  show ?thesis
    unfolding g using a b t1 t2 c(1) by (simp; blast)
qed

theorem getChatsByParticipants_empty_witness:
  "fst (getChatsByParticipants [''alice'', ''carol''] sampleDb) = []
   \<and> fst (getChatsByParticipants [''bob''] sampleDb) = []
   \<and> fst (getChatsByParticipants [''alice'']
             (sampleDb\<lparr>faults := [DbThrows ''MongoNetworkError: connection lost'']\<rparr>)) = []
   \<and> fst (getChatsByParticipants [''alice'']
             (sampleDb\<lparr>faults := [NoFault, DbThrows ''MongoNetworkError: connection lost'']\<rparr>)) = []"
proof -
  have d: "distinct (map username (UserModel sampleDb))"
    "\<exists>n \<in> set [''alice'', ''carol'']. n \<notin> username ` set (UserModel sampleDb)"
    by (simp_all add: sampleDb_def alice_def bob_def)
  have n: "\<forall>c \<in> set (ChatModel sampleDb). \<exists>u \<in> set (UserModel sampleDb).
          username u \<in> set [''bob''] \<and> user_id u \<notin> set (doc_participants c)"
    by (simp add: sampleDb_def alice_def bob_def)
  have t1: "\<exists>e d1. UserModel_find_in [''alice'']
              (sampleDb\<lparr>faults := [DbThrows ''MongoNetworkError: connection lost'']\<rparr>)
            = (Throws e, d1)"
    by (simp add: UserModel_find_in_def db_call_def)
  have t2: "\<exists>us d1 e d2. UserModel_find_in [''alice'']
              (sampleDb\<lparr>faults := [NoFault, DbThrows ''MongoNetworkError: connection lost'']\<rparr>)
            = (Returns (Some us), d1)
          \<and> ChatModel_find_all (map user_id us) d1 = (Throws e, d2)"
    by (simp add: UserModel_find_in_def ChatModel_find_all_def db_call_def)
  from getChatsByParticipants_empty[of sampleDb "[''alice'', ''carol'']"] d
  have "fst (getChatsByParticipants [''alice'', ''carol''] sampleDb) = []"
    by blast
  moreover from getChatsByParticipants_empty[of sampleDb "[''bob'']"] n
  have "fst (getChatsByParticipants [''bob''] sampleDb) = []"
    by blast
  moreover from getChatsByParticipants_empty
      [of "sampleDb\<lparr>faults := [DbThrows ''MongoNetworkError: connection lost'']\<rparr>" "[''alice'']"] t1
  have "fst (getChatsByParticipants [''alice'']
             (sampleDb\<lparr>faults := [DbThrows ''MongoNetworkError: connection lost'']\<rparr>)) = []"
    by blast
  moreover from getChatsByParticipants_empty
      [of "sampleDb\<lparr>faults := [NoFault, DbThrows ''MongoNetworkError: connection lost'']\<rparr>"
          "[''alice'']"] t2
  have "fst (getChatsByParticipants [''alice'']
             (sampleDb\<lparr>faults := [NoFault, DbThrows ''MongoNetworkError: connection lost'']\<rparr>)) = []"
    by blast
  ultimately show ?thesis by blast
qed

section \<open>Failures of the routes\<close>











end
